theory Spec2Isabelle
  imports Complex_Main "HOL-Library.Sublist"
begin

section \<open>Strings\<close>

text \<open>
  An analysis text is a \<^typ>\<open>string\<close>, a list of the 256 characters of HOL, read as the
  code points below 256. \<open>lower_char\<close> is what Python's \<open>str.lower\<close> does to one such code
  point: the letters A to Z and the capital letters of Latin-1 (192 to 222, the
  multiplication sign 215 apart) move up by 32, every other code point stays. Texts with
  code points from 256 on are outside this model.
\<close>

definition lower_char :: "char \<Rightarrow> char" where
  "lower_char c =
     (let n = (of_char c :: nat)
      in if (65 \<le> n \<and> n \<le> 90) \<or> (192 \<le> n \<and> n \<le> 222 \<and> n \<noteq> 215)
         then char_of (n + 32) else c)"

definition lower :: "string \<Rightarrow> string" where
  "lower s = map lower_char s"

text \<open>\<open>startswith s p\<close> is \<open>s.startswith(p)\<close>, and \<open>str_in sub s\<close> is Python's \<open>sub in s\<close>.\<close>

fun startswith :: "string \<Rightarrow> string \<Rightarrow> bool" where
  "startswith s [] = True"
| "startswith [] (p # ps) = False"
| "startswith (c # cs) (p # ps) = (c = p \<and> startswith cs ps)"

fun str_in :: "string \<Rightarrow> string \<Rightarrow> bool" where
  "str_in sub [] = (sub = [])"
| "str_in sub (c # cs) = (startswith (c # cs) sub \<or> str_in sub cs)"

text \<open>\<open>join sep xs\<close> is \<open>sep.join(xs)\<close>.\<close>

fun join :: "string \<Rightarrow> string list \<Rightarrow> string" where
  "join sep [] = []"
| "join sep [x] = x"
| "join sep (x # y # ys) = x @ sep @ join sep (y # ys)"

section \<open>The compliance score\<close>

text \<open>
  Each of the four agent classes carries its own copy of \<open>_calculate_compliance_score\<close>.
  \<open>sum(1 for indicator in indicators if indicator in analysis_text.lower())\<close> adds one for
  every indicator of the list that the lowered text contains.
\<close>

definition BalanceSheetAgent_calculate_compliance_score :: "string \<Rightarrow> int" where
  "BalanceSheetAgent_calculate_compliance_score analysis_text =
     (let positive_indicators =
            [''compliant'', ''adequate'', ''proper'', ''correct'', ''complete''];
          negative_indicators =
            [''missing'', ''incomplete'', ''non-compliant'', ''inadequate'', ''error''];
          positive_count =
            int (length (filter (\<lambda>indicator. str_in indicator (lower analysis_text))
                   positive_indicators));
          negative_count =
            int (length (filter (\<lambda>indicator. str_in indicator (lower analysis_text))
                   negative_indicators));
          base_score = 50;
          score = base_score + (positive_count * 10) - (negative_count * 15)
      in max 0 (min 100 score))"

definition ProfitLossAgent_calculate_compliance_score :: "string \<Rightarrow> int" where
  "ProfitLossAgent_calculate_compliance_score analysis_text =
     (let positive_indicators =
            [''compliant'', ''adequate'', ''proper'', ''correct'', ''complete''];
          negative_indicators =
            [''missing'', ''incomplete'', ''non-compliant'', ''inadequate'', ''error''];
          positive_count =
            int (length (filter (\<lambda>indicator. str_in indicator (lower analysis_text))
                   positive_indicators));
          negative_count =
            int (length (filter (\<lambda>indicator. str_in indicator (lower analysis_text))
                   negative_indicators));
          base_score = 50;
          score = base_score + (positive_count * 10) - (negative_count * 15)
      in max 0 (min 100 score))"

definition CashFlowAgent_calculate_compliance_score :: "string \<Rightarrow> int" where
  "CashFlowAgent_calculate_compliance_score analysis_text =
     (let positive_indicators =
            [''compliant'', ''adequate'', ''proper'', ''correct'', ''complete''];
          negative_indicators =
            [''missing'', ''incomplete'', ''non-compliant'', ''inadequate'', ''error''];
          positive_count =
            int (length (filter (\<lambda>indicator. str_in indicator (lower analysis_text))
                   positive_indicators));
          negative_count =
            int (length (filter (\<lambda>indicator. str_in indicator (lower analysis_text))
                   negative_indicators));
          base_score = 50;
          score = base_score + (positive_count * 10) - (negative_count * 15)
      in max 0 (min 100 score))"

definition NotesAgent_calculate_compliance_score :: "string \<Rightarrow> int" where
  "NotesAgent_calculate_compliance_score analysis_text =
     (let positive_indicators =
            [''compliant'', ''adequate'', ''proper'', ''correct'', ''complete''];
          negative_indicators =
            [''missing'', ''incomplete'', ''non-compliant'', ''inadequate'', ''error''];
          positive_count =
            int (length (filter (\<lambda>indicator. str_in indicator (lower analysis_text))
                   positive_indicators));
          negative_count =
            int (length (filter (\<lambda>indicator. str_in indicator (lower analysis_text))
                   negative_indicators));
          base_score = 50;
          score = base_score + (positive_count * 10) - (negative_count * 15)
      in max 0 (min 100 score))"

section \<open>Prompts\<close>

text \<open>
  The prompts are the source's literals, one source line per line here. A template of
  \<open>PromptTemplate\<close> is the function of its input variables that formatting it computes.
\<close>

definition meta_prompt_generator :: "string \<Rightarrow> string \<Rightarrow> string list \<Rightarrow> string" where
  "meta_prompt_generator agent_name task_description validation_criteria =
     ''\<newline>'' @
     ''        You are an expert prompt engineer and '' @
     agent_name @
     '' validation specialist. \<newline>'' @
     ''        Your task is to create the most effective prompt for validating financial statements.\<newline>'' @
     ''        \<newline>'' @
     ''        TASK: '' @
     task_description @
     ''\<newline>'' @
     ''        \<newline>'' @
     ''        VALIDATION CRITERIA:\<newline>'' @
     ''        '' @
     join ''\<newline>'' (map (\<lambda>criteria. ''- '' @ criteria) validation_criteria) @
     ''\<newline>'' @
     ''        \<newline>'' @
     ''        Using meta prompting principles, create a systematic validation framework that:\<newline>'' @
     ''        1. Breaks down complex validation into manageable subtasks\<newline>'' @
     ''        2. Uses structured thinking and self-reflection\<newline>'' @
     ''        3. Implements recursive checking for accuracy\<newline>'' @
     ''        4. Provides clear, actionable feedback\<newline>'' @
     ''        5. Follows regulatory compliance requirements\<newline>'' @
     ''        \<newline>'' @
     ''        Generate an optimized prompt that will ensure thorough and accurate validation.\<newline>'' @
     ''        ''"

definition self_reflection_prompt :: "string \<Rightarrow> string" where
  "self_reflection_prompt validation_result =
     ''\<newline>'' @
     ''        Review your validation analysis below and perform self-reflection:\<newline>'' @
     ''        \<newline>'' @
     ''        VALIDATION RESULT:\<newline>'' @
     ''        '' @
     validation_result @
     ''\<newline>'' @
     ''        \<newline>'' @
     ''        Self-reflection questions:\<newline>'' @
     ''        1. Did I check all required disclosure items?\<newline>'' @
     ''        2. Are my findings supported by specific evidence from the document?\<newline>'' @
     ''        3. Have I considered materiality thresholds?\<newline>'' @
     ''        4. Are there any inconsistencies I missed?\<newline>'' @
     ''        5. Do my recommendations align with regulatory requirements?\<newline>'' @
     ''        \<newline>'' @
     ''        Provide an improved validation analysis addressing any gaps identified.\<newline>'' @
     ''        ''"

definition balance_sheet_validation_prompt :: "string \<Rightarrow> string \<Rightarrow> string" where
  "balance_sheet_validation_prompt financial_text criteria =
     ''\<newline>'' @
     ''            You are an expert financial analyst specializing in Balance Sheet validation.\<newline>'' @
     ''            \<newline>'' @
     ''            FINANCIAL STATEMENT TEXT:\<newline>'' @
     ''            '' @
     financial_text @
     ''\<newline>'' @
     ''            \<newline>'' @
     ''            VALIDATION CRITERIA:\<newline>'' @
     ''            '' @
     criteria @
     ''\<newline>'' @
     ''            \<newline>'' @
     ''            Perform systematic validation using this framework:\<newline>'' @
     ''            \<newline>'' @
     ''            1. STRUCTURAL ANALYSIS:\<newline>'' @
     ''               - Verify current/non-current classification\<newline>'' @
     ''               - Check line item presentations\<newline>'' @
     ''               - Validate mathematical accuracy\<newline>'' @
     ''            \<newline>'' @
     ''            2. DISCLOSURE COMPLIANCE:\<newline>'' @
     ''               - Assess mandatory disclosures per Schedule III\<newline>'' @
     ''               - Check notes cross-references\<newline>'' @
     ''               - Verify comparative figures\<newline>'' @
     ''            \<newline>'' @
     ''            3. REGULATORY REQUIREMENTS:\<newline>'' @
     ''               - Materiality considerations\<newline>'' @
     ''               - Rounding consistency\<newline>'' @
     ''               - Related party disclosures\<newline>'' @
     ''            \<newline>'' @
     ''            4. QUALITY ASSESSMENT:\<newline>'' @
     ''               - Identify missing information\<newline>'' @
     ''               - Flag potential red flags\<newline>'' @
     ''               - Provide improvement recommendations\<newline>'' @
     ''            \<newline>'' @
     ''            Provide detailed findings with specific line references.\<newline>'' @
     ''            ''"

definition profit_loss_validation_prompt :: "string \<Rightarrow> string \<Rightarrow> string" where
  "profit_loss_validation_prompt financial_text criteria =
     ''\<newline>'' @
     ''            You are an expert financial analyst specializing in Statement of Profit and Loss validation.\<newline>'' @
     ''            \<newline>'' @
     ''            FINANCIAL STATEMENT TEXT:\<newline>'' @
     ''            '' @
     financial_text @
     ''\<newline>'' @
     ''            \<newline>'' @
     ''            VALIDATION FRAMEWORK:\<newline>'' @
     ''            \<newline>'' @
     ''            1. REVENUE ANALYSIS:\<newline>'' @
     ''               - Verify revenue from operations classification\<newline>'' @
     ''               - Check other income segregation\<newline>'' @
     ''               - Assess revenue recognition policies\<newline>'' @
     ''            \<newline>'' @
     ''            2. EXPENSE VALIDATION:\<newline>'' @
     ''               - Employee benefits expense breakdown\<newline>'' @
     ''               - Finance costs classification\<newline>'' @
     ''               - Depreciation and amortization\<newline>'' @
     ''               - Other expenses categorization\<newline>'' @
     ''            \<newline>'' @
     ''            3. PROFIT COMPUTATION:\<newline>'' @
     ''               - Exceptional items treatment\<newline>'' @
     ''               - Tax expense validation\<newline>'' @
     ''               - Discontinued operations\<newline>'' @
     ''               - Other comprehensive income\<newline>'' @
     ''            \<newline>'' @
     ''            4. DISCLOSURE REQUIREMENTS:\<newline>'' @
     ''               - Earnings per share calculation\<newline>'' @
     ''               - Additional information notes\<newline>'' @
     ''               - Prior period comparatives\<newline>'' @
     ''            \<newline>'' @
     ''            VALIDATION CRITERIA:\<newline>'' @
     ''            '' @
     criteria @
     ''\<newline>'' @
     ''            \<newline>'' @
     ''            Provide systematic analysis with compliance assessment.\<newline>'' @
     ''            ''"

definition cash_flow_validation_prompt :: "string \<Rightarrow> string \<Rightarrow> string" where
  "cash_flow_validation_prompt financial_text criteria =
     ''\<newline>'' @
     ''            You are an expert financial analyst specializing in Cash Flow Statement validation.\<newline>'' @
     ''            \<newline>'' @
     ''            FINANCIAL STATEMENT TEXT:\<newline>'' @
     ''            '' @
     financial_text @
     ''\<newline>'' @
     ''            \<newline>'' @
     ''            VALIDATION FRAMEWORK:\<newline>'' @
     ''            \<newline>'' @
     ''            1. OPERATING ACTIVITIES:\<newline>'' @
     ''               - Direct vs indirect method\<newline>'' @
     ''               - Working capital changes\<newline>'' @
     ''               - Non-cash adjustments\<newline>'' @
     ''            \<newline>'' @
     ''            2. INVESTING ACTIVITIES:\<newline>'' @
     ''               - Capital expenditure\<newline>'' @
     ''               - Investment transactions\<newline>'' @
     ''               - Asset disposals\<newline>'' @
     ''            \<newline>'' @
     ''            3. FINANCING ACTIVITIES:\<newline>'' @
     ''               - Borrowing activities\<newline>'' @
     ''               - Equity transactions\<newline>'' @
     ''               - Dividend payments\<newline>'' @
     ''            \<newline>'' @
     ''            4. RECONCILIATION & DISCLOSURE:\<newline>'' @
     ''               - Opening/closing cash reconciliation\<newline>'' @
     ''               - Non-cash transactions\<newline>'' @
     ''               - Restricted cash disclosure\<newline>'' @
     ''            \<newline>'' @
     ''            CRITERIA: '' @
     criteria @
     ''\<newline>'' @
     ''            \<newline>'' @
     ''            Provide comprehensive validation analysis.\<newline>'' @
     ''            ''"

definition notes_validation_prompt :: "string \<Rightarrow> string \<Rightarrow> string" where
  "notes_validation_prompt financial_text criteria =
     ''\<newline>'' @
     ''            You are an expert financial analyst specializing in Notes to Financial Statements validation.\<newline>'' @
     ''            \<newline>'' @
     ''            FINANCIAL STATEMENT TEXT:\<newline>'' @
     ''            '' @
     financial_text @
     ''\<newline>'' @
     ''            \<newline>'' @
     ''            VALIDATION FRAMEWORK:\<newline>'' @
     ''            \<newline>'' @
     ''            1. ACCOUNTING POLICIES:\<newline>'' @
     ''               - Revenue recognition policy\<newline>'' @
     ''               - Depreciation methods\<newline>'' @
     ''               - Inventory valuation\<newline>'' @
     ''               - Investment classification\<newline>'' @
     ''            \<newline>'' @
     ''            2. DETAILED DISCLOSURES:\<newline>'' @
     ''               - Asset breakdowns and reconciliations\<newline>'' @
     ''               - Liability terms and conditions\<newline>'' @
     ''               - Equity movements\<newline>'' @
     ''               - Income and expense analysis\<newline>'' @
     ''            \<newline>'' @
     ''            3. REGULATORY COMPLIANCE:\<newline>'' @
     ''               - Related party disclosures\<newline>'' @
     ''               - Contingent liabilities\<newline>'' @
     ''               - Commitments\<newline>'' @
     ''               - Subsequent events\<newline>'' @
     ''            \<newline>'' @
     ''            4. ADEQUACY ASSESSMENT:\<newline>'' @
     ''               - Information completeness\<newline>'' @
     ''               - Clarity and understandability\<newline>'' @
     ''               - Cross-reference accuracy\<newline>'' @
     ''            \<newline>'' @
     ''            CRITERIA: '' @
     criteria @
     ''\<newline>'' @
     ''            \<newline>'' @
     ''            Provide detailed validation with specific improvement recommendations.\<newline>'' @
     ''            ''"


definition BalanceSheetAgent_validation_criteria :: "string list" where
  "BalanceSheetAgent_validation_criteria =
     [''Current vs Non-current asset/liability classification'',
      ''Property, Plant and Equipment disclosures'',
      ''Investment classifications and fair value disclosures'',
      ''Trade receivables aging and bad debt provisions'',
      ''Share capital and reserves composition'',
      ''Borrowings classification and security details'',
      ''Related party transactions disclosure'',
      ''Contingent liabilities and commitments'']"

definition ProfitLossAgent_validation_criteria :: "string list" where
  "ProfitLossAgent_validation_criteria =
     [''Revenue recognition and classification'',
      ''Operating vs non-operating income segregation'',
      ''Expense categorization and disclosure'',
      ''Exceptional and extraordinary items'',
      ''Tax expense calculation and deferred tax'',
      ''Earnings per share computation'',
      ''Other comprehensive income items'',
      ''Related party transaction disclosures'']"

definition CashFlowAgent_validation_criteria :: "string list" where
  "CashFlowAgent_validation_criteria =
     [''Operating activities cash flow presentation'',
      ''Investing activities classification'',
      ''Financing activities segregation'',
      ''Reconciliation with net income'',
      ''Non-cash transactions disclosure'',
      ''Cash and cash equivalents definition'',
      ''Foreign exchange impact'']"

definition NotesAgent_validation_criteria :: "string list" where
  "NotesAgent_validation_criteria =
     [''Accounting policies disclosure'',
      ''Significant estimates and judgments'',
      ''Property, plant and equipment details'',
      ''Investment classification and valuation'',
      ''Borrowings terms and conditions'',
      ''Related party relationships and transactions'',
      ''Contingent liabilities and commitments'',
      ''Subsequent events disclosure'']"

section \<open>The completion service and the clock\<close>

text \<open>
  The language model and the clock are outside the program. A completion client answers a
  prompt, given the prompts sent before it, with a text (\<open>Inr\<close>) or fails with the message of
  the exception that \<open>chain.run\<close> raises (\<open>Inl\<close>). The clock gives the text of
  \<open>datetime.now().isoformat()\<close> at its n-th reading. The world records every prompt sent,
  failed calls too, and the number of clock readings.
\<close>

type_synonym completion_client = "string list \<Rightarrow> string \<Rightarrow> string + string"

record services =
  llm :: completion_client
  isoformat_now :: "nat \<Rightarrow> string"

record world =
  prompts_sent :: "string list"
  clock_reads :: nat

definition chain_run :: "services \<Rightarrow> string \<Rightarrow> world \<Rightarrow> (string + string) \<times> world" where
  "chain_run sv prompt w =
     (llm sv (prompts_sent w) prompt, w\<lparr>prompts_sent := prompts_sent w @ [prompt]\<rparr>)"

definition datetime_now_isoformat :: "services \<Rightarrow> world \<Rightarrow> string \<times> world" where
  "datetime_now_isoformat sv w =
     (isoformat_now sv (clock_reads w), w\<lparr>clock_reads := Suc (clock_reads w)\<rparr>)"

section \<open>The four agents\<close>

text \<open>
  A validation returns one of two dictionaries: the balance sheet agent's, with the keys
  agent, initial_analysis, refined_analysis, compliance_score and timestamp, and the other
  three agents', with the keys agent, analysis, compliance_score and timestamp.
\<close>

datatype validation_result =
    RefinedResult (agent: string) (initial_analysis: string) (refined_analysis: string)
      (compliance_score: int) (timestamp: string)
  | AnalysisResult (agent: string) (analysis: string)
      (compliance_score: int) (timestamp: string)

definition BalanceSheetAgent_validate_balance_sheet ::
    "services \<Rightarrow> string \<Rightarrow> world \<Rightarrow> (string + validation_result) \<times> world" where
  "BalanceSheetAgent_validate_balance_sheet sv financial_text w =
     (let meta_prompt = meta_prompt_generator ''Balance Sheet Validation''
            ''Validate Balance Sheet compliance with Schedule III Division II requirements''
            BalanceSheetAgent_validation_criteria;
          criteria = join ''\<newline>'' (map (\<lambda>c. ''- '' @ c) BalanceSheetAgent_validation_criteria)
      in case chain_run sv (balance_sheet_validation_prompt financial_text criteria) w of
           (Inl e, w1) \<Rightarrow> (Inl e, w1)
         | (Inr initial_result, w1) \<Rightarrow>
             (let reflection_prompt_text = self_reflection_prompt initial_result
              in case chain_run sv reflection_prompt_text w1 of
                   (Inl e, w2) \<Rightarrow> (Inl e, w2)
                 | (Inr final_result, w2) \<Rightarrow>
                     (let score = BalanceSheetAgent_calculate_compliance_score final_result;
                          (ts, w3) = datetime_now_isoformat sv w2
                      in (Inr (RefinedResult ''Balance Sheet'' initial_result final_result
                                 score ts), w3))))"

definition ProfitLossAgent_validate_profit_loss ::
    "services \<Rightarrow> string \<Rightarrow> world \<Rightarrow> (string + validation_result) \<times> world" where
  "ProfitLossAgent_validate_profit_loss sv financial_text w =
     (let criteria = join ''\<newline>'' (map (\<lambda>c. ''- '' @ c) ProfitLossAgent_validation_criteria)
      in case chain_run sv (profit_loss_validation_prompt financial_text criteria) w of
           (Inl e, w1) \<Rightarrow> (Inl e, w1)
         | (Inr result, w1) \<Rightarrow>
             (let score = ProfitLossAgent_calculate_compliance_score result;
                  (ts, w2) = datetime_now_isoformat sv w1
              in (Inr (AnalysisResult ''Profit & Loss'' result score ts), w2)))"

definition CashFlowAgent_validate_cash_flow ::
    "services \<Rightarrow> string \<Rightarrow> world \<Rightarrow> (string + validation_result) \<times> world" where
  "CashFlowAgent_validate_cash_flow sv financial_text w =
     (let criteria = join ''\<newline>'' (map (\<lambda>c. ''- '' @ c) CashFlowAgent_validation_criteria)
      in case chain_run sv (cash_flow_validation_prompt financial_text criteria) w of
           (Inl e, w1) \<Rightarrow> (Inl e, w1)
         | (Inr result, w1) \<Rightarrow>
             (let score = CashFlowAgent_calculate_compliance_score result;
                  (ts, w2) = datetime_now_isoformat sv w1
              in (Inr (AnalysisResult ''Cash Flow'' result score ts), w2)))"

definition NotesAgent_validate_notes ::
    "services \<Rightarrow> string \<Rightarrow> world \<Rightarrow> (string + validation_result) \<times> world" where
  "NotesAgent_validate_notes sv financial_text w =
     (let criteria = join ''\<newline>'' (map (\<lambda>c. ''- '' @ c) NotesAgent_validation_criteria)
      in case chain_run sv (notes_validation_prompt financial_text criteria) w of
           (Inl e, w1) \<Rightarrow> (Inl e, w1)
         | (Inr result, w1) \<Rightarrow>
             (let score = NotesAgent_calculate_compliance_score result;
                  (ts, w2) = datetime_now_isoformat sv w1
              in (Inr (AnalysisResult ''Notes'' result score ts), w2)))"

section \<open>True division of integers\<close>

text \<open>
  Python's \<open>a / b\<close> on two integers gives a float, the IEEE binary64 number nearest to
  the exact quotient, ties going to the even mantissa, subnormal numbers included. It
  raises ZeroDivisionError when \<open>b\<close> is 0 and OverflowError when the rounded quotient is
  not a finite float. A float is given here as the real number that it denotes.

  \<open>bit_length\<close> is \<open>int.bit_length\<close> on a natural number. \<open>float_exponent x y\<close> is the
  exponent \<open>e\<close> with \<open>2^e \<le> x / y < 2^(e + 1)\<close> for positive \<open>x\<close> and \<open>y\<close>; the spacing of
  the floats around the quotient is \<open>2^q\<close> with \<open>q\<close> the larger of \<open>e - 52\<close> and \<open>-1074\<close>, and
  the mantissa \<open>m\<close> is the quotient over \<open>2^q\<close> rounded to an integer, half to even.
\<close>

datatype py_error = ZeroDivisionError | OverflowError

fun bit_length :: "nat \<Rightarrow> nat" where
  "bit_length n = (if n = 0 then 0 else Suc (bit_length (n div 2)))"

declare bit_length.simps [simp del]

definition round_half_even_div :: "int \<Rightarrow> int \<Rightarrow> int" where
  "round_half_even_div n d =
     (let f = n div d; r = n mod d
      in if 2 * r < d then f
         else if d < 2 * r then f + 1
         else if even f then f else f + 1)"

definition float_exponent :: "nat \<Rightarrow> nat \<Rightarrow> int" where
  "float_exponent x y =
     (let k = int (bit_length x) - int (bit_length y)
      in if (if 0 \<le> k then y * 2 ^ nat k \<le> x else y \<le> x * 2 ^ nat (- k)) then k else k - 1)"

definition int_true_divide :: "int \<Rightarrow> int \<Rightarrow> py_error + real" where
  "int_true_divide a b =
     (if b = 0 then Inl ZeroDivisionError
      else if a = 0 then Inr 0
      else
        (let x = nat \<bar>a\<bar>; y = nat \<bar>b\<bar>;
             e = float_exponent x y;
             q = max (e - 52) (- 1074);
             m = (if 0 \<le> q then round_half_even_div (int x) (int y * 2 ^ nat q)
                  else round_half_even_div (int x * 2 ^ nat (- q)) (int y))
         in if 971 < q \<or> (q = 971 \<and> m = 2 ^ 53) then Inl OverflowError
            else Inr (of_int (sgn a * sgn b * m) *
                      (if 0 \<le> q then 2 ^ nat q else 1 / 2 ^ nat (- q)))))"

section \<open>The validation run of \<open>main\<close>\<close>

text \<open>
  The handler of the button "Start Validation". It is reached with an API key, an uploaded
  file and a non-empty extracted text. The four checkboxes of the sidebar are the scope.
  An entry of the list \<open>agents\<close> is a pair of a name and an agent object built from the key;
  the objects hold nothing but the key and their fixed criteria, so an entry is written as
  its class, \<open>agent_name\<close> gives the name paired with it, and the chain of name tests in the
  loop is the case distinction of \<open>run_agent\<close>.
\<close>

record scope =
  validate_balance_sheet :: bool
  validate_profit_loss :: bool
  validate_cash_flow :: bool
  validate_notes :: bool

datatype agent = BalanceSheetAgent | ProfitLossAgent | CashFlowAgent | NotesAgent

fun agent_name :: "agent \<Rightarrow> string" where
  "agent_name BalanceSheetAgent = ''Balance Sheet''"
| "agent_name ProfitLossAgent = ''P&L''"
| "agent_name CashFlowAgent = ''Cash Flow''"
| "agent_name NotesAgent = ''Notes''"

definition initialize_agents :: "scope \<Rightarrow> agent list" where
  "initialize_agents sc =
     (if validate_balance_sheet sc then [BalanceSheetAgent] else []) @
     (if validate_profit_loss sc then [ProfitLossAgent] else []) @
     (if validate_cash_flow sc then [CashFlowAgent] else []) @
     (if validate_notes sc then [NotesAgent] else [])"

fun run_agent ::
    "agent \<Rightarrow> services \<Rightarrow> string \<Rightarrow> world \<Rightarrow> (string + validation_result) \<times> world" where
  "run_agent BalanceSheetAgent = BalanceSheetAgent_validate_balance_sheet"
| "run_agent ProfitLossAgent = ProfitLossAgent_validate_profit_loss"
| "run_agent CashFlowAgent = CashFlowAgent_validate_cash_flow"
| "run_agent NotesAgent = NotesAgent_validate_notes"

text \<open>
  What the page shows and what the run has collected: the status line, the value of the
  progress bar, the messages of \<open>st.error\<close>, the list \<open>validation_results\<close>, the three metrics
  of the dashboard when they are shown, and the world. The code of the dashboard stands
  outside every \<open>try\<close>: \<open>metrics\<close> is \<open>Inl\<close> of the exception that it raises, and
  otherwise \<open>Inr\<close> of the metrics shown, if any. The overall compliance is a float.
\<close>

record dashboard =
  overall_compliance :: real
  agents_used :: nat
  issues_found :: nat

record app_state =
  status_text :: string
  progress_bar :: real
  errors :: "string list"
  validation_results :: "validation_result list"
  metrics :: "py_error + dashboard option"
  outside :: world

text \<open>
  The loop \<open>for i, (agent_name, agent) in enumerate(agents)\<close>; \<open>n\<close> is \<open>len(agents)\<close>. An
  exception of the validation is caught and reported, and the loop goes on.
\<close>

fun run_agents ::
    "services \<Rightarrow> string \<Rightarrow> nat \<Rightarrow> nat \<Rightarrow> agent list \<Rightarrow> app_state \<Rightarrow> app_state" where
  "run_agents sv financial_text n i [] s = s"
| "run_agents sv financial_text n i (a # rest) s =
     (let s1 = s\<lparr>status_text := ''Validating '' @ agent_name a @ ''...''\<rparr>;
          s2 = (case run_agent a sv financial_text (outside s1) of
                  (Inr result, w) \<Rightarrow>
                    s1\<lparr>validation_results := validation_results s1 @ [result], outside := w\<rparr>
                | (Inl e, w) \<Rightarrow>
                    s1\<lparr>errors := errors s1 @
                         [''Error in '' @ agent_name a @ '' validation: '' @ e],
                       outside := w\<rparr>);
          s3 = s2\<lparr>progress_bar := (real i + 1) / real n\<rparr>
      in run_agents sv financial_text n (i + 1) rest s3)"

text \<open>
  The dashboard: \<open>avg_score\<close> is the float that the true division of the integer
  \<open>sum(...)\<close> by the integer \<open>len(validation_results)\<close> gives. The metrics are computed
  only under \<open>if validation_results:\<close>.
\<close>

definition validation_dashboard ::
    "validation_result list \<Rightarrow> py_error + dashboard option" where
  "validation_dashboard rs =
     (if rs \<noteq> [] then
        (case int_true_divide (sum_list (map compliance_score rs)) (int (length rs)) of
           Inl e \<Rightarrow> Inl e
         | Inr avg_score \<Rightarrow>
             Inr (Some \<lparr>overall_compliance = avg_score,
                        agents_used = length rs,
                        issues_found = length (filter (\<lambda>r. compliance_score r < 80) rs)\<rparr>))
      else Inr None)"

definition start_validation :: "services \<Rightarrow> scope \<Rightarrow> string \<Rightarrow> world \<Rightarrow> app_state" where
  "start_validation sv sc financial_text w =
     (let agents = initialize_agents sc;
          s0 = \<lparr>status_text = [], progress_bar = 0, errors = [], validation_results = [],
                metrics = Inr None, outside = w\<rparr>;
          s1 = run_agents sv financial_text (length agents) 0 agents s0;
          s2 = s1\<lparr>status_text := ''Validation complete!''\<rparr>
      in s2\<lparr>metrics := validation_dashboard (validation_results s2)\<rparr>)"

section \<open>Notions of the specification\<close>

text \<open>
  The marker lists, the number of occurrences of a marker in a text (every position counts)
  and the score as the specification words it, over occurrences.
\<close>

definition positive_markers :: "string list" where
  "positive_markers = [''compliant'', ''adequate'', ''proper'', ''correct'', ''complete'']"

definition negative_markers :: "string list" where
  "negative_markers =
     [''missing'', ''incomplete'', ''non-compliant'', ''inadequate'', ''error'']"

fun count_occurrences :: "string \<Rightarrow> string \<Rightarrow> nat" where
  "count_occurrences sub [] = (if sub = [] then 1 else 0)"
| "count_occurrences sub (c # cs) =
     (if startswith (c # cs) sub then 1 else 0) + count_occurrences sub cs"

definition spec_score :: "string \<Rightarrow> int" where
  "spec_score T =
     (let positiveCount = (\<Sum>m\<leftarrow>positive_markers. int (count_occurrences m (lower T)));
          negativeCount = (\<Sum>m\<leftarrow>negative_markers. int (count_occurrences m (lower T)))
      in max 0 (min 100 (50 + 10 * positiveCount - 15 * negativeCount)))"

text \<open>The canonical order of the agents, and whether the scope enables an agent.\<close>

definition canonical_order :: "agent list" where
  "canonical_order = [BalanceSheetAgent, ProfitLossAgent, CashFlowAgent, NotesAgent]"

fun enabled :: "scope \<Rightarrow> agent \<Rightarrow> bool" where
  "enabled sc BalanceSheetAgent = validate_balance_sheet sc"
| "enabled sc ProfitLossAgent = validate_profit_loss sc"
| "enabled sc CashFlowAgent = validate_cash_flow sc"
| "enabled sc NotesAgent = validate_notes sc"

text \<open>The value of the key agent in the dictionary that an agent returns.\<close>

fun result_agent :: "agent \<Rightarrow> string" where
  "result_agent BalanceSheetAgent = ''Balance Sheet''"
| "result_agent ProfitLossAgent = ''Profit & Loss''"
| "result_agent CashFlowAgent = ''Cash Flow''"
| "result_agent NotesAgent = ''Notes''"

text \<open>
  The outcome of every validation of a run, in the order of the calls: each agent runs in
  the world that the agents before it have left.
\<close>

fun agent_outcomes ::
    "services \<Rightarrow> string \<Rightarrow> agent list \<Rightarrow> world \<Rightarrow> (agent \<times> (string + validation_result)) list" where
  "agent_outcomes sv financial_text [] w = []"
| "agent_outcomes sv financial_text (a # rest) w =
     (a, fst (run_agent a sv financial_text w)) #
     agent_outcomes sv financial_text rest (snd (run_agent a sv financial_text w))"

text \<open>
  The balance sheet validation with the construction of the meta-prompt removed and
  nothing else changed.
\<close>

definition validate_balance_sheet_without_meta_prompt ::
    "services \<Rightarrow> string \<Rightarrow> world \<Rightarrow> (string + validation_result) \<times> world" where
  "validate_balance_sheet_without_meta_prompt sv financial_text w =
     (let criteria = join ''\<newline>'' (map (\<lambda>c. ''- '' @ c) BalanceSheetAgent_validation_criteria)
      in case chain_run sv (balance_sheet_validation_prompt financial_text criteria) w of
           (Inl e, w1) \<Rightarrow> (Inl e, w1)
         | (Inr initial_result, w1) \<Rightarrow>
             (let reflection_prompt_text = self_reflection_prompt initial_result
              in case chain_run sv reflection_prompt_text w1 of
                   (Inl e, w2) \<Rightarrow> (Inl e, w2)
                 | (Inr final_result, w2) \<Rightarrow>
                     (let score = BalanceSheetAgent_calculate_compliance_score final_result;
                          (ts, w3) = datetime_now_isoformat sv w2
                      in (Inr (RefinedResult ''Balance Sheet'' initial_result final_result
                                 score ts), w3))))"

text \<open>The successful results and the reported errors of a list of outcomes, in order.\<close>

fun results_of :: "(agent \<times> (string + validation_result)) list \<Rightarrow> validation_result list" where
  "results_of [] = []"
| "results_of ((a, Inr r) # outs) = r # results_of outs"
| "results_of ((a, Inl e) # outs) = results_of outs"

fun errors_of :: "(agent \<times> (string + validation_result)) list \<Rightarrow> string list" where
  "errors_of [] = []"
| "errors_of ((a, Inr r) # outs) = errors_of outs"
| "errors_of ((a, Inl e) # outs) =
     (''Error in '' @ agent_name a @ '' validation: '' @ e) # errors_of outs"

text \<open>The prompt that each agent sends first: its template with the text and its criteria.\<close>

definition balance_sheet_prompt :: "string \<Rightarrow> string" where
  "balance_sheet_prompt financial_text =
     balance_sheet_validation_prompt financial_text
       (join ''\<newline>'' (map (\<lambda>c. ''- '' @ c) BalanceSheetAgent_validation_criteria))"

definition profit_loss_prompt :: "string \<Rightarrow> string" where
  "profit_loss_prompt financial_text =
     profit_loss_validation_prompt financial_text
       (join ''\<newline>'' (map (\<lambda>c. ''- '' @ c) ProfitLossAgent_validation_criteria))"

definition cash_flow_prompt :: "string \<Rightarrow> string" where
  "cash_flow_prompt financial_text =
     cash_flow_validation_prompt financial_text
       (join ''\<newline>'' (map (\<lambda>c. ''- '' @ c) CashFlowAgent_validation_criteria))"

definition notes_prompt :: "string \<Rightarrow> string" where
  "notes_prompt financial_text =
     notes_validation_prompt financial_text
       (join ''\<newline>'' (map (\<lambda>c. ''- '' @ c) NotesAgent_validation_criteria))"

section \<open>Sample inputs\<close>

text \<open>
  Services for concrete runs: one whose every completion succeeds, one whose fourth
  completion call fails, which with all four agents enabled is the call of the cash flow
  agent, and further down one whose answers have different scores.
\<close>

definition steady_services :: services where
  "steady_services =
     \<lparr>llm = (\<lambda>sent prompt. Inr ''The statement is compliant.''),
      isoformat_now = (\<lambda>n. ''2024-01-01T00:00:00'')\<rparr>"

definition fourth_call_fails :: services where
  "fourth_call_fails =
     \<lparr>llm = (\<lambda>sent prompt. if length sent = 3 then Inl ''rate limit exceeded''
                             else Inr ''The statement is compliant.''),
      isoformat_now = (\<lambda>n. ''2024-01-01T00:00:00'')\<rparr>"

definition fresh_world :: world where
  "fresh_world = \<lparr>prompts_sent = [], clock_reads = 0\<rparr>"

definition all_agents :: scope where
  "all_agents = \<lparr>validate_balance_sheet = True, validate_profit_loss = True,
                  validate_cash_flow = True, validate_notes = True\<rparr>"

definition no_agents :: scope where
  "no_agents = \<lparr>validate_balance_sheet = False, validate_profit_loss = False,
                 validate_cash_flow = False, validate_notes = False\<rparr>"

text \<open>
  A service whose first three answers score 80, 60 and 100, and the scope of the three
  single-pass agents.
\<close>

definition graded_services :: services where
  "graded_services =
     \<lparr>llm = (\<lambda>sent prompt.
               if length sent = 0 then Inr ''compliant adequate proper''
               else if length sent = 1 then Inr ''compliant''
               else Inr ''compliant adequate proper correct complete''),
      isoformat_now = (\<lambda>n. ''2024-01-01T00:00:00'')\<rparr>"

definition single_pass_agents :: scope where
  "single_pass_agents = \<lparr>validate_balance_sheet = False, validate_profit_loss = True,
                          validate_cash_flow = True, validate_notes = True\<rparr>"

section \<open>Containment\<close>

lemma startswith_prefix: "startswith s p \<longleftrightarrow> prefix p s"
  by (induction s p rule: startswith.induct) auto

lemma str_in_sublist: "str_in sub s \<longleftrightarrow> sublist sub s"
  by (induction s) (auto simp: startswith_prefix sublist_Cons_right)

lemma str_in_iff: "str_in sub s \<longleftrightarrow> (\<exists>ps ss. s = ps @ sub @ ss)"
  by (simp add: str_in_sublist sublist_def)

lemma str_in_trans: "str_in a b \<Longrightarrow> str_in b c \<Longrightarrow> str_in a c"
  using sublist_order.order_trans by (auto simp: str_in_sublist)

lemma complete_in_incomplete: "str_in ''complete'' ''incomplete''"
  by simp

lemma adequate_in_inadequate: "str_in ''adequate'' ''inadequate''"
  by simp

lemma compliant_in_non_compliant: "str_in ''compliant'' ''non-compliant''"
  by simp

section \<open>Properties of the score\<close>

lemma clamp_bounds: "0 \<le> max (0::int) (min 100 x) \<and> max (0::int) (min 100 x) \<le> 100"
  by simp

lemma ProfitLoss_score_eq:
  "ProfitLossAgent_calculate_compliance_score = BalanceSheetAgent_calculate_compliance_score"
  unfolding fun_eq_iff BalanceSheetAgent_calculate_compliance_score_def
    ProfitLossAgent_calculate_compliance_score_def
  by (rule allI, rule refl)

lemma CashFlow_score_eq:
  "CashFlowAgent_calculate_compliance_score = BalanceSheetAgent_calculate_compliance_score"
  unfolding fun_eq_iff BalanceSheetAgent_calculate_compliance_score_def
    CashFlowAgent_calculate_compliance_score_def
  by (rule allI, rule refl)

lemma Notes_score_eq:
  "NotesAgent_calculate_compliance_score = BalanceSheetAgent_calculate_compliance_score"
  unfolding fun_eq_iff BalanceSheetAgent_calculate_compliance_score_def
    NotesAgent_calculate_compliance_score_def
  by (rule allI, rule refl)

lemma score_bounds:
  "0 \<le> BalanceSheetAgent_calculate_compliance_score T \<and>
   BalanceSheetAgent_calculate_compliance_score T \<le> 100"
  unfolding BalanceSheetAgent_calculate_compliance_score_def Let_def by (rule clamp_bounds)

lemma length_filter_card:
  "distinct xs \<Longrightarrow> int (length (filter P xs)) = int (card {x \<in> set xs. P x})"
  by (simp add: distinct_length_filter Int_def conj_commute)

lemma distinct_positive: "distinct positive_markers"
  by (simp add: positive_markers_def)

lemma distinct_negative: "distinct negative_markers"
  by (simp add: negative_markers_def)

lemma score_markers:
  "BalanceSheetAgent_calculate_compliance_score T =
     max 0 (min 100 (50 + int (length (filter (\<lambda>m. str_in m (lower T)) positive_markers)) * 10
                        - int (length (filter (\<lambda>m. str_in m (lower T)) negative_markers)) * 15))"
  unfolding BalanceSheetAgent_calculate_compliance_score_def Let_def positive_markers_def
    negative_markers_def
  by (rule refl)

lemma score_card:
  "BalanceSheetAgent_calculate_compliance_score T =
     max 0 (min 100
       (50 + 10 * int (card {m \<in> set positive_markers. \<exists>ps ss. lower T = ps @ m @ ss})
           - 15 * int (card {m \<in> set negative_markers. \<exists>ps ss. lower T = ps @ m @ ss})))"
  unfolding score_markers length_filter_card[OF distinct_positive]
    length_filter_card[OF distinct_negative] str_in_iff
  by (simp only: mult.commute)

lemma length_filter_Cons_int:
  "int (length (filter P (x # xs))) = of_bool (P x) + int (length (filter P xs))"
  by simp

lemma score_of_bool:
  "BalanceSheetAgent_calculate_compliance_score T =
     max 0 (min 100 (50 +
       (of_bool (str_in ''compliant'' (lower T)) + of_bool (str_in ''adequate'' (lower T)) +
        of_bool (str_in ''proper'' (lower T)) + of_bool (str_in ''correct'' (lower T)) +
        of_bool (str_in ''complete'' (lower T))) * 10 -
       (of_bool (str_in ''missing'' (lower T)) + of_bool (str_in ''incomplete'' (lower T)) +
        of_bool (str_in ''non-compliant'' (lower T)) + of_bool (str_in ''inadequate'' (lower T)) +
        of_bool (str_in ''error'' (lower T))) * 15))"
  unfolding score_markers positive_markers_def negative_markers_def length_filter_Cons_int
  by (simp only: list.size filter.simps of_nat_0 add_0_right add.assoc)

lemma overlap_arith:
  fixes p1 p2 p3 p4 p5 n1 n2 n3 n4 n5 :: int
  assumes "n2 \<le> p5" "n4 \<le> p2" "n3 \<le> p1" "0 \<le> p3" "0 \<le> p4"
    and "n1 \<le> 1" "n2 \<le> 1" "n3 \<le> 1" "n4 \<le> 1" "n5 \<le> 1"
  shows "5 \<le> max 0 (min 100 (50 + (p1 + p2 + p3 + p4 + p5) * 10 - (n1 + n2 + n3 + n4 + n5) * 15))"
proof -
  have "5 \<le> 50 + (p1 + p2 + p3 + p4 + p5) * 10 - (n1 + n2 + n3 + n4 + n5) * 15"
    using assms by (simp add: distrib_right)
  then show ?thesis by simp
qed

lemma of_bool_mono_int: "(P \<Longrightarrow> Q) \<Longrightarrow> of_bool P \<le> (of_bool Q :: int)"
  by (cases P) simp_all

lemma score_at_least_5: "5 \<le> BalanceSheetAgent_calculate_compliance_score T"
  unfolding score_of_bool
  by (rule overlap_arith)
     (simp_all add: of_bool_mono_int str_in_trans[OF complete_in_incomplete]
        str_in_trans[OF adequate_in_inadequate] str_in_trans[OF compliant_in_non_compliant])

lemma score_all_positive:
  "BalanceSheetAgent_calculate_compliance_score ''compliant adequate proper correct complete'' = 100"
  by code_simp

lemma score_all_negative:
  "BalanceSheetAgent_calculate_compliance_score
     ''missing incomplete non-compliant inadequate error'' = 5"
  by code_simp

lemma score_compliant_twice:
  "BalanceSheetAgent_calculate_compliance_score ''compliant compliant'' = 60"
  by code_simp

lemma spec_score_compliant_twice: "spec_score ''compliant compliant'' = 70"
  by code_simp

text \<open>
  C1, as stated, fails: the specification counts every occurrence of a marker, so the text
  "compliant compliant" has two positive occurrences and should score 70; the code tests
  each marker for containment once and scores 60.
\<close>

theorem occurrence_count_counterexample:
  "BalanceSheetAgent_calculate_compliance_score ''compliant compliant'' = 60 \<and>
   spec_score ''compliant compliant'' = 70 \<and>
   BalanceSheetAgent_calculate_compliance_score ''compliant compliant'' \<noteq>
     spec_score ''compliant compliant''"
  by (simp add: score_compliant_twice spec_score_compliant_twice)

text \<open>
  C1, amended: the compliance score is 50 plus 10 for each of the five positive markers
  that the lowered text contains, minus 15 for each of the five negative markers that it
  contains, clamped to 0..100; a marker counts once however often it occurs. The text of
  all five positive markers and no negative one scores exactly 100. The score is never
  below 5, and the text of all five negative markers scores exactly 5.
\<close>

theorem compliance_score_counts_markers:
  "BalanceSheetAgent_calculate_compliance_score T =
     max 0 (min 100
       (50 + 10 * int (card {m \<in> set positive_markers. \<exists>ps ss. lower T = ps @ m @ ss})
           - 15 * int (card {m \<in> set negative_markers. \<exists>ps ss. lower T = ps @ m @ ss}))) \<and>
   BalanceSheetAgent_calculate_compliance_score
     ''compliant adequate proper correct complete'' = 100 \<and>
   5 \<le> BalanceSheetAgent_calculate_compliance_score T \<and>
   BalanceSheetAgent_calculate_compliance_score
     ''missing incomplete non-compliant inadequate error'' = 5"
  using score_card[of T] score_all_positive score_at_least_5[of T] score_all_negative
  by (intro conjI)

text \<open>
  C8: the text "incomplete" contains the positive marker "complete" and the negative marker
  "incomplete", and its score is 50 + 10 - 15 = 45.
\<close>

theorem score_incomplete:
  "BalanceSheetAgent_calculate_compliance_score ''incomplete'' = 45 \<and>
   str_in ''complete'' (lower ''incomplete'') \<and> str_in ''incomplete'' (lower ''incomplete'')"
  by code_simp

text \<open>
  C9: "adequate" occurs in "inadequate" and "compliant" in "non-compliant". A text that
  contains the negative marker "inadequate" and, the marker "adequate" inside it apart, no
  other marker contains the positive marker "adequate" and scores 45; the same holds of
  "non-compliant" and "compliant".
\<close>

theorem further_overlaps_score_45:
  "str_in ''adequate'' ''inadequate'' \<and> str_in ''compliant'' ''non-compliant'' \<and>
   (str_in ''inadequate'' (lower T) \<and>
    \<not> str_in ''compliant'' (lower T) \<and> \<not> str_in ''proper'' (lower T) \<and>
    \<not> str_in ''correct'' (lower T) \<and> \<not> str_in ''complete'' (lower T) \<and>
    \<not> str_in ''missing'' (lower T) \<and> \<not> str_in ''incomplete'' (lower T) \<and>
    \<not> str_in ''non-compliant'' (lower T) \<and> \<not> str_in ''error'' (lower T)
    \<longrightarrow> str_in ''adequate'' (lower T) \<and>
        BalanceSheetAgent_calculate_compliance_score T = 45) \<and>
   (str_in ''non-compliant'' (lower T) \<and>
    \<not> str_in ''adequate'' (lower T) \<and> \<not> str_in ''proper'' (lower T) \<and>
    \<not> str_in ''correct'' (lower T) \<and> \<not> str_in ''complete'' (lower T) \<and>
    \<not> str_in ''missing'' (lower T) \<and> \<not> str_in ''incomplete'' (lower T) \<and>
    \<not> str_in ''inadequate'' (lower T) \<and> \<not> str_in ''error'' (lower T)
    \<longrightarrow> str_in ''compliant'' (lower T) \<and>
        BalanceSheetAgent_calculate_compliance_score T = 45)"
proof (intro conjI impI)
  show "str_in ''adequate'' ''inadequate''" by (rule adequate_in_inadequate)
  show "str_in ''compliant'' ''non-compliant''" by (rule compliant_in_non_compliant)
next
  assume h: "str_in ''inadequate'' (lower T) \<and>
    \<not> str_in ''compliant'' (lower T) \<and> \<not> str_in ''proper'' (lower T) \<and>
    \<not> str_in ''correct'' (lower T) \<and> \<not> str_in ''complete'' (lower T) \<and>
    \<not> str_in ''missing'' (lower T) \<and> \<not> str_in ''incomplete'' (lower T) \<and>
    \<not> str_in ''non-compliant'' (lower T) \<and> \<not> str_in ''error'' (lower T)"
  then show a: "str_in ''adequate'' (lower T)"
    using str_in_trans[OF adequate_in_inadequate] by blast
  show "BalanceSheetAgent_calculate_compliance_score T = 45"
    unfolding score_of_bool using h a by simp
next
  assume h: "str_in ''non-compliant'' (lower T) \<and>
    \<not> str_in ''adequate'' (lower T) \<and> \<not> str_in ''proper'' (lower T) \<and>
    \<not> str_in ''correct'' (lower T) \<and> \<not> str_in ''complete'' (lower T) \<and>
    \<not> str_in ''missing'' (lower T) \<and> \<not> str_in ''incomplete'' (lower T) \<and>
    \<not> str_in ''inadequate'' (lower T) \<and> \<not> str_in ''error'' (lower T)"
  then show a: "str_in ''compliant'' (lower T)"
    using str_in_trans[OF compliant_in_non_compliant] by blast
  show "BalanceSheetAgent_calculate_compliance_score T = 45"
    unfolding score_of_bool using h a by simp
qed

lemma inadequate_markers:
  "str_in ''inadequate'' (lower ''Inadequate'') \<and>
    \<not> str_in ''compliant'' (lower ''Inadequate'') \<and> \<not> str_in ''proper'' (lower ''Inadequate'') \<and>
    \<not> str_in ''correct'' (lower ''Inadequate'') \<and> \<not> str_in ''complete'' (lower ''Inadequate'') \<and>
    \<not> str_in ''missing'' (lower ''Inadequate'') \<and> \<not> str_in ''incomplete'' (lower ''Inadequate'') \<and>
    \<not> str_in ''non-compliant'' (lower ''Inadequate'') \<and> \<not> str_in ''error'' (lower ''Inadequate'')"
  by code_simp

lemma non_compliant_markers:
  "str_in ''non-compliant'' (lower ''NON-compliant'') \<and>
    \<not> str_in ''adequate'' (lower ''NON-compliant'') \<and> \<not> str_in ''proper'' (lower ''NON-compliant'') \<and>
    \<not> str_in ''correct'' (lower ''NON-compliant'') \<and> \<not> str_in ''complete'' (lower ''NON-compliant'') \<and>
    \<not> str_in ''missing'' (lower ''NON-compliant'') \<and> \<not> str_in ''incomplete'' (lower ''NON-compliant'') \<and>
    \<not> str_in ''inadequate'' (lower ''NON-compliant'') \<and> \<not> str_in ''error'' (lower ''NON-compliant'')"
  by code_simp

theorem further_overlaps_score_45_witness:
  "str_in ''inadequate'' (lower ''Inadequate'') \<and>
   str_in ''adequate'' (lower ''Inadequate'') \<and>
   BalanceSheetAgent_calculate_compliance_score ''Inadequate'' = 45 \<and>
   str_in ''non-compliant'' (lower ''NON-compliant'') \<and>
   str_in ''compliant'' (lower ''NON-compliant'') \<and>
   BalanceSheetAgent_calculate_compliance_score ''NON-compliant'' = 45"
  using further_overlaps_score_45[of "''Inadequate''"] inadequate_markers
    further_overlaps_score_45[of "''NON-compliant''"] non_compliant_markers
  by blast

section \<open>The agents' validations\<close>

lemma BS_returns:
  assumes "llm sv (prompts_sent w) (balance_sheet_prompt doc) = Inr a1"
    and "llm sv (prompts_sent w @ [balance_sheet_prompt doc]) (self_reflection_prompt a1) = Inr a2"
  shows "BalanceSheetAgent_validate_balance_sheet sv doc w =
     (Inr (RefinedResult ''Balance Sheet'' a1 a2
            (BalanceSheetAgent_calculate_compliance_score a2) (isoformat_now sv (clock_reads w))),
      w\<lparr>prompts_sent := prompts_sent w @ [balance_sheet_prompt doc, self_reflection_prompt a1],
        clock_reads := Suc (clock_reads w)\<rparr>)"
  using assms
  by (simp add: BalanceSheetAgent_validate_balance_sheet_def Let_def chain_run_def
      datetime_now_isoformat_def balance_sheet_prompt_def)

lemma BS_result:
  assumes "BalanceSheetAgent_validate_balance_sheet sv doc w = (Inr r, w')"
  shows "\<exists>a1 a2. llm sv (prompts_sent w) (balance_sheet_prompt doc) = Inr a1 \<and>
     llm sv (prompts_sent w @ [balance_sheet_prompt doc]) (self_reflection_prompt a1) = Inr a2 \<and>
     r = RefinedResult ''Balance Sheet'' a1 a2
            (BalanceSheetAgent_calculate_compliance_score a2) (isoformat_now sv (clock_reads w)) \<and>
     w' = w\<lparr>prompts_sent := prompts_sent w @ [balance_sheet_prompt doc, self_reflection_prompt a1],
        clock_reads := Suc (clock_reads w)\<rparr>"
  using assms
  by (auto simp add: BalanceSheetAgent_validate_balance_sheet_def Let_def chain_run_def
      datetime_now_isoformat_def balance_sheet_prompt_def split: sum.splits)

lemma PL_returns:
  assumes "llm sv (prompts_sent w) (profit_loss_prompt doc) = Inr a"
  shows "ProfitLossAgent_validate_profit_loss sv doc w =
     (Inr (AnalysisResult ''Profit & Loss'' a
            (ProfitLossAgent_calculate_compliance_score a) (isoformat_now sv (clock_reads w))),
      w\<lparr>prompts_sent := prompts_sent w @ [profit_loss_prompt doc],
        clock_reads := Suc (clock_reads w)\<rparr>)"
  using assms
  by (simp add: ProfitLossAgent_validate_profit_loss_def Let_def chain_run_def
      datetime_now_isoformat_def profit_loss_prompt_def)

lemma PL_result:
  assumes "ProfitLossAgent_validate_profit_loss sv doc w = (Inr r, w')"
  shows "\<exists>a. llm sv (prompts_sent w) (profit_loss_prompt doc) = Inr a \<and>
     r = AnalysisResult ''Profit & Loss'' a
            (ProfitLossAgent_calculate_compliance_score a) (isoformat_now sv (clock_reads w)) \<and>
     w' = w\<lparr>prompts_sent := prompts_sent w @ [profit_loss_prompt doc],
        clock_reads := Suc (clock_reads w)\<rparr>"
  using assms
  by (auto simp add: ProfitLossAgent_validate_profit_loss_def Let_def chain_run_def
      datetime_now_isoformat_def profit_loss_prompt_def split: sum.splits)

lemma CF_returns:
  assumes "llm sv (prompts_sent w) (cash_flow_prompt doc) = Inr a"
  shows "CashFlowAgent_validate_cash_flow sv doc w =
     (Inr (AnalysisResult ''Cash Flow'' a
            (CashFlowAgent_calculate_compliance_score a) (isoformat_now sv (clock_reads w))),
      w\<lparr>prompts_sent := prompts_sent w @ [cash_flow_prompt doc],
        clock_reads := Suc (clock_reads w)\<rparr>)"
  using assms
  by (simp add: CashFlowAgent_validate_cash_flow_def Let_def chain_run_def
      datetime_now_isoformat_def cash_flow_prompt_def)

lemma CF_result:
  assumes "CashFlowAgent_validate_cash_flow sv doc w = (Inr r, w')"
  shows "\<exists>a. llm sv (prompts_sent w) (cash_flow_prompt doc) = Inr a \<and>
     r = AnalysisResult ''Cash Flow'' a
            (CashFlowAgent_calculate_compliance_score a) (isoformat_now sv (clock_reads w)) \<and>
     w' = w\<lparr>prompts_sent := prompts_sent w @ [cash_flow_prompt doc],
        clock_reads := Suc (clock_reads w)\<rparr>"
  using assms
  by (auto simp add: CashFlowAgent_validate_cash_flow_def Let_def chain_run_def
      datetime_now_isoformat_def cash_flow_prompt_def split: sum.splits)

lemma Notes_returns:
  assumes "llm sv (prompts_sent w) (notes_prompt doc) = Inr a"
  shows "NotesAgent_validate_notes sv doc w =
     (Inr (AnalysisResult ''Notes'' a
            (NotesAgent_calculate_compliance_score a) (isoformat_now sv (clock_reads w))),
      w\<lparr>prompts_sent := prompts_sent w @ [notes_prompt doc],
        clock_reads := Suc (clock_reads w)\<rparr>)"
  using assms
  by (simp add: NotesAgent_validate_notes_def Let_def chain_run_def
      datetime_now_isoformat_def notes_prompt_def)

lemma Notes_result:
  assumes "NotesAgent_validate_notes sv doc w = (Inr r, w')"
  shows "\<exists>a. llm sv (prompts_sent w) (notes_prompt doc) = Inr a \<and>
     r = AnalysisResult ''Notes'' a
            (NotesAgent_calculate_compliance_score a) (isoformat_now sv (clock_reads w)) \<and>
     w' = w\<lparr>prompts_sent := prompts_sent w @ [notes_prompt doc],
        clock_reads := Suc (clock_reads w)\<rparr>"
  using assms
  by (auto simp add: NotesAgent_validate_notes_def Let_def chain_run_def
      datetime_now_isoformat_def notes_prompt_def split: sum.splits)

lemma run_agent_result:
  assumes "run_agent a sv doc w = (Inr r, w')"
  shows "agent r = result_agent a \<and> 0 \<le> compliance_score r \<and> compliance_score r \<le> 100"
proof (cases a)
  case BalanceSheetAgent
  with assms show ?thesis using BS_result[of sv doc w r w'] score_bounds by auto
next
  case ProfitLossAgent
  with assms show ?thesis
    using PL_result[of sv doc w r w'] score_bounds by (auto simp: ProfitLoss_score_eq)
next
  case CashFlowAgent
  with assms show ?thesis
    using CF_result[of sv doc w r w'] score_bounds by (auto simp: CashFlow_score_eq)
next
  case NotesAgent
  with assms show ?thesis
    using Notes_result[of sv doc w r w'] score_bounds by (auto simp: Notes_score_eq)
qed

section \<open>The loop over the agents\<close>

lemma agent_outcomes_agents: "map fst (agent_outcomes sv doc as w) = as"
  by (induction as arbitrary: w) simp_all

lemma agent_outcomes_result:
  "(a, Inr r) \<in> set (agent_outcomes sv doc as w) \<Longrightarrow>
   agent r = result_agent a \<and> 0 \<le> compliance_score r \<and> compliance_score r \<le> 100"
proof (induction as arbitrary: w)
  case Nil
  then show ?case by simp
next
  case (Cons b as)
  show ?case
  proof (cases "(a, Inr r) = (b, fst (run_agent b sv doc w))")
    case True
    then have "run_agent a sv doc w = (Inr r, snd (run_agent a sv doc w))"
      by (metis Pair_inject prod.collapse)
    then show ?thesis by (rule run_agent_result)
  next
    case False
    with Cons.prems have "(a, Inr r) \<in> set (agent_outcomes sv doc as (snd (run_agent b sv doc w)))"
      by auto
    then show ?thesis by (rule Cons.IH)
  qed
qed

lemma run_agents_collect:
  "validation_results (run_agents sv doc n i as s) =
     validation_results s @ results_of (agent_outcomes sv doc as (outside s)) \<and>
   errors (run_agents sv doc n i as s) =
     errors s @ errors_of (agent_outcomes sv doc as (outside s))"
proof (induction as arbitrary: i s)
  case Nil
  show ?case by simp
next
  case (Cons a as)
  obtain out w where rw: "run_agent a sv doc (outside s) = (out, w)"
    by (cases "run_agent a sv doc (outside s)")
  show ?case
  proof (cases out)
    case (Inl e)
    with rw show ?thesis by (simp add: Let_def Cons.IH)
  next
    case (Inr r)
    with rw show ?thesis by (simp add: Let_def Cons.IH)
  qed
qed

lemma run_agents_progress:
  "as \<noteq> [] \<Longrightarrow> progress_bar (run_agents sv doc n i as s) = (real i + real (length as)) / real n"
proof (induction as arbitrary: i s)
  case Nil
  then show ?case by simp
next
  case (Cons a as)
  show ?case
  proof (cases "as = []")
    case True
    then show ?thesis by (simp add: Let_def split: prod.splits sum.splits)
  next
    case False
    then show ?thesis by (simp add: Let_def Cons.IH add.assoc)
  qed
qed

lemma run_agents_metrics: "metrics (run_agents sv doc n i as s) = metrics s"
  by (induction as arbitrary: i s) (simp_all add: Let_def split: prod.splits sum.splits)

lemma start_validation_results:
  "validation_results (start_validation sv sc doc w) =
     results_of (agent_outcomes sv doc (initialize_agents sc) w)"
  by (simp add: start_validation_def Let_def run_agents_collect)

lemma start_validation_errors:
  "errors (start_validation sv sc doc w) =
     errors_of (agent_outcomes sv doc (initialize_agents sc) w)"
  by (simp add: start_validation_def Let_def run_agents_collect)

lemma start_validation_status:
  "status_text (start_validation sv sc doc w) = ''Validation complete!''"
  by (simp add: start_validation_def Let_def)

lemma start_validation_metrics:
  "metrics (start_validation sv sc doc w) =
     validation_dashboard (validation_results (start_validation sv sc doc w))"
  by (simp add: start_validation_def Let_def)

lemma start_validation_progress:
  "initialize_agents sc \<noteq> [] \<Longrightarrow> progress_bar (start_validation sv sc doc w) = 1"
  by (simp add: start_validation_def Let_def run_agents_progress)

lemma initialize_agents_canonical:
  "initialize_agents sc = filter (enabled sc) canonical_order"
  by (simp add: initialize_agents_def canonical_order_def)

lemma distinct_initialize_agents: "distinct (initialize_agents sc)"
  by (simp add: initialize_agents_canonical canonical_order_def)

lemma results_of_member: "r \<in> set (results_of outs) \<Longrightarrow> \<exists>a. (a, Inr r) \<in> set outs"
  by (induction outs rule: results_of.induct) auto

lemma results_of_labels:
  assumes "\<forall>(a, out) \<in> set outs. P a \<longleftrightarrow> (\<exists>r. out = Inr r)"
    and "\<forall>(a, out) \<in> set outs. \<forall>r. out = Inr r \<longrightarrow> agent r = result_agent a"
  shows "map agent (results_of outs) = map result_agent (filter P (map fst outs))"
  using assms by (induction outs rule: results_of.induct) auto

lemma errors_of_none:
  "\<forall>(a, out) \<in> set outs. \<exists>r. out = Inr r \<Longrightarrow> errors_of outs = []"
  by (induction outs rule: errors_of.induct) auto

lemma errors_of_all_succeed:
  "errors_of outs = [] \<Longrightarrow> (a, out) \<in> set outs \<Longrightarrow> \<exists>r. out = Inr r"
  by (induction outs rule: errors_of.induct) auto

lemma errors_of_one:
  assumes "distinct (map fst outs)" and "(k, Inl e) \<in> set outs"
    and "\<forall>(a, out) \<in> set outs. a \<noteq> k \<longrightarrow> (\<exists>r. out = Inr r)"
  shows "errors_of outs = [''Error in '' @ agent_name k @ '' validation: '' @ e]"
  using assms
proof (induction outs rule: errors_of.induct)
  case 1
  then show ?case by simp
next
  case (2 a r outs)
  then show ?case by auto
next
  case (3 a e' outs)
  from "3.prems"(3) have ak: "a = k" by auto
  with "3.prems"(1) have notin: "k \<notin> fst ` set outs" by simp
  with "3.prems"(2) ak have e: "e' = e" by force
  from notin "3.prems"(3) have "\<forall>(a, out) \<in> set outs. \<exists>r. out = Inr r" by force
  then have "errors_of outs = []" by (rule errors_of_none)
  with ak e show ?case by simp
qed

lemma CF_fails:
  assumes "llm sv (prompts_sent w) (cash_flow_prompt doc) = Inl e"
  shows "CashFlowAgent_validate_cash_flow sv doc w =
     (Inl e, w\<lparr>prompts_sent := prompts_sent w @ [cash_flow_prompt doc]\<rparr>)"
  using assms
  by (simp add: CashFlowAgent_validate_cash_flow_def Let_def chain_run_def cash_flow_prompt_def)

lemma result_agent_inj: "result_agent a = result_agent b \<Longrightarrow> a = b"
  by (cases a; cases b) simp_all

section \<open>Sample runs\<close>

lemma score_steady:
  "BalanceSheetAgent_calculate_compliance_score ''The statement is compliant.'' = 60"
  by code_simp

lemma steady_llm: "llm steady_services sent p = Inr ''The statement is compliant.''"
  by (simp add: steady_services_def)

lemma steady_now: "isoformat_now steady_services n = ''2024-01-01T00:00:00''"
  by (simp add: steady_services_def)

lemma steady_BS:
  "BalanceSheetAgent_validate_balance_sheet steady_services doc w =
     (Inr (RefinedResult ''Balance Sheet'' ''The statement is compliant.''
             ''The statement is compliant.'' 60 ''2024-01-01T00:00:00''),
      w\<lparr>prompts_sent := prompts_sent w @
           [balance_sheet_prompt doc, self_reflection_prompt ''The statement is compliant.''],
        clock_reads := Suc (clock_reads w)\<rparr>)"
  using BS_returns[of steady_services w doc "''The statement is compliant.''"
      "''The statement is compliant.''"]
  by (simp add: steady_llm steady_now score_steady)

lemma steady_PL:
  "ProfitLossAgent_validate_profit_loss steady_services doc w =
     (Inr (AnalysisResult ''Profit & Loss'' ''The statement is compliant.'' 60
             ''2024-01-01T00:00:00''),
      w\<lparr>prompts_sent := prompts_sent w @ [profit_loss_prompt doc],
        clock_reads := Suc (clock_reads w)\<rparr>)"
  using PL_returns[of steady_services w doc "''The statement is compliant.''"]
  by (simp add: steady_llm steady_now score_steady ProfitLoss_score_eq)

lemma steady_CF:
  "CashFlowAgent_validate_cash_flow steady_services doc w =
     (Inr (AnalysisResult ''Cash Flow'' ''The statement is compliant.'' 60
             ''2024-01-01T00:00:00''),
      w\<lparr>prompts_sent := prompts_sent w @ [cash_flow_prompt doc],
        clock_reads := Suc (clock_reads w)\<rparr>)"
  using CF_returns[of steady_services w doc "''The statement is compliant.''"]
  by (simp add: steady_llm steady_now score_steady CashFlow_score_eq)

lemma steady_Notes:
  "NotesAgent_validate_notes steady_services doc w =
     (Inr (AnalysisResult ''Notes'' ''The statement is compliant.'' 60
             ''2024-01-01T00:00:00''),
      w\<lparr>prompts_sent := prompts_sent w @ [notes_prompt doc],
        clock_reads := Suc (clock_reads w)\<rparr>)"
  using Notes_returns[of steady_services w doc "''The statement is compliant.''"]
  by (simp add: steady_llm steady_now score_steady Notes_score_eq)

lemma steady_outcomes:
  "agent_outcomes steady_services doc (initialize_agents all_agents) w =
     [(BalanceSheetAgent, Inr (RefinedResult ''Balance Sheet'' ''The statement is compliant.''
          ''The statement is compliant.'' 60 ''2024-01-01T00:00:00'')),
      (ProfitLossAgent, Inr (AnalysisResult ''Profit & Loss'' ''The statement is compliant.''
          60 ''2024-01-01T00:00:00'')),
      (CashFlowAgent, Inr (AnalysisResult ''Cash Flow'' ''The statement is compliant.''
          60 ''2024-01-01T00:00:00'')),
      (NotesAgent, Inr (AnalysisResult ''Notes'' ''The statement is compliant.''
          60 ''2024-01-01T00:00:00''))]"
  by (simp add: initialize_agents_def all_agents_def steady_BS steady_PL steady_CF steady_Notes)

lemma fourth_llm:
  "llm fourth_call_fails sent p =
     (if length sent = 3 then Inl ''rate limit exceeded''
      else Inr ''The statement is compliant.'')"
  by (simp add: fourth_call_fails_def)

lemma fourth_now: "isoformat_now fourth_call_fails n = ''2024-01-01T00:00:00''"
  by (simp add: fourth_call_fails_def)

lemma fourth_BS:
  "prompts_sent w = [] \<Longrightarrow>
   BalanceSheetAgent_validate_balance_sheet fourth_call_fails doc w =
     (Inr (RefinedResult ''Balance Sheet'' ''The statement is compliant.''
             ''The statement is compliant.'' 60 ''2024-01-01T00:00:00''),
      w\<lparr>prompts_sent :=
           [balance_sheet_prompt doc, self_reflection_prompt ''The statement is compliant.''],
        clock_reads := Suc (clock_reads w)\<rparr>)"
  using BS_returns[of fourth_call_fails w doc "''The statement is compliant.''"
      "''The statement is compliant.''"]
  by (simp add: fourth_llm fourth_now score_steady)

lemma fourth_PL:
  "length (prompts_sent w) = 2 \<Longrightarrow>
   ProfitLossAgent_validate_profit_loss fourth_call_fails doc w =
     (Inr (AnalysisResult ''Profit & Loss'' ''The statement is compliant.'' 60
             ''2024-01-01T00:00:00''),
      w\<lparr>prompts_sent := prompts_sent w @ [profit_loss_prompt doc],
        clock_reads := Suc (clock_reads w)\<rparr>)"
  using PL_returns[of fourth_call_fails w doc "''The statement is compliant.''"]
  by (simp add: fourth_llm fourth_now score_steady ProfitLoss_score_eq)

lemma fourth_CF:
  "length (prompts_sent w) = 3 \<Longrightarrow>
   CashFlowAgent_validate_cash_flow fourth_call_fails doc w =
     (Inl ''rate limit exceeded'', w\<lparr>prompts_sent := prompts_sent w @ [cash_flow_prompt doc]\<rparr>)"
  using CF_fails[of fourth_call_fails w doc "''rate limit exceeded''"]
  by (simp add: fourth_llm)

lemma fourth_Notes:
  "length (prompts_sent w) = 4 \<Longrightarrow>
   NotesAgent_validate_notes fourth_call_fails doc w =
     (Inr (AnalysisResult ''Notes'' ''The statement is compliant.'' 60
             ''2024-01-01T00:00:00''),
      w\<lparr>prompts_sent := prompts_sent w @ [notes_prompt doc],
        clock_reads := Suc (clock_reads w)\<rparr>)"
  using Notes_returns[of fourth_call_fails w doc "''The statement is compliant.''"]
  by (simp add: fourth_llm fourth_now score_steady Notes_score_eq)

lemma fourth_outcomes:
  "agent_outcomes fourth_call_fails doc (initialize_agents all_agents) fresh_world =
     [(BalanceSheetAgent, Inr (RefinedResult ''Balance Sheet'' ''The statement is compliant.''
          ''The statement is compliant.'' 60 ''2024-01-01T00:00:00'')),
      (ProfitLossAgent, Inr (AnalysisResult ''Profit & Loss'' ''The statement is compliant.''
          60 ''2024-01-01T00:00:00'')),
      (CashFlowAgent, Inl ''rate limit exceeded''),
      (NotesAgent, Inr (AnalysisResult ''Notes'' ''The statement is compliant.''
          60 ''2024-01-01T00:00:00''))]"
  by (simp add: initialize_agents_def all_agents_def fresh_world_def
      fourth_BS fourth_PL fourth_CF fourth_Notes)

section \<open>The claims about the agents and the run\<close>

text \<open>
  C4: when its completion calls succeed, the balance sheet validation sends exactly two
  prompts, the validation prompt and then the reflection prompt built from the first
  answer, and returns a result with the first answer as initial analysis, the second as
  refined analysis and the score of the second. Each of the other three validations sends
  exactly one prompt and returns a result with the answer as its single analysis and the
  score of that answer. Conversely every result returned took two calls for the balance
  sheet and one call for the others.
\<close>

theorem two_pass_and_single_pass:
  "(llm sv (prompts_sent w) (balance_sheet_prompt doc) = Inr a1 \<and>
    llm sv (prompts_sent w @ [balance_sheet_prompt doc]) (self_reflection_prompt a1) = Inr a2 \<longrightarrow>
      BalanceSheetAgent_validate_balance_sheet sv doc w =
        (Inr (RefinedResult ''Balance Sheet'' a1 a2
               (BalanceSheetAgent_calculate_compliance_score a2)
               (isoformat_now sv (clock_reads w))),
         w\<lparr>prompts_sent := prompts_sent w @ [balance_sheet_prompt doc, self_reflection_prompt a1],
           clock_reads := Suc (clock_reads w)\<rparr>)) \<and>
   (BalanceSheetAgent_validate_balance_sheet sv doc w = (Inr r, w') \<longrightarrow>
      length (prompts_sent w') = length (prompts_sent w) + 2 \<and>
      r = RefinedResult ''Balance Sheet'' (initial_analysis r) (refined_analysis r)
            (BalanceSheetAgent_calculate_compliance_score (refined_analysis r)) (timestamp r)) \<and>
   (llm sv (prompts_sent w) (profit_loss_prompt doc) = Inr a \<longrightarrow>
      ProfitLossAgent_validate_profit_loss sv doc w =
        (Inr (AnalysisResult ''Profit & Loss'' a
               (ProfitLossAgent_calculate_compliance_score a) (isoformat_now sv (clock_reads w))),
         w\<lparr>prompts_sent := prompts_sent w @ [profit_loss_prompt doc],
           clock_reads := Suc (clock_reads w)\<rparr>)) \<and>
   (ProfitLossAgent_validate_profit_loss sv doc w = (Inr r, w') \<longrightarrow>
      length (prompts_sent w') = length (prompts_sent w) + 1 \<and>
      r = AnalysisResult ''Profit & Loss'' (analysis r)
            (ProfitLossAgent_calculate_compliance_score (analysis r)) (timestamp r)) \<and>
   (llm sv (prompts_sent w) (cash_flow_prompt doc) = Inr a \<longrightarrow>
      CashFlowAgent_validate_cash_flow sv doc w =
        (Inr (AnalysisResult ''Cash Flow'' a
               (CashFlowAgent_calculate_compliance_score a) (isoformat_now sv (clock_reads w))),
         w\<lparr>prompts_sent := prompts_sent w @ [cash_flow_prompt doc],
           clock_reads := Suc (clock_reads w)\<rparr>)) \<and>
   (CashFlowAgent_validate_cash_flow sv doc w = (Inr r, w') \<longrightarrow>
      length (prompts_sent w') = length (prompts_sent w) + 1 \<and>
      r = AnalysisResult ''Cash Flow'' (analysis r)
            (CashFlowAgent_calculate_compliance_score (analysis r)) (timestamp r)) \<and>
   (llm sv (prompts_sent w) (notes_prompt doc) = Inr a \<longrightarrow>
      NotesAgent_validate_notes sv doc w =
        (Inr (AnalysisResult ''Notes'' a
               (NotesAgent_calculate_compliance_score a) (isoformat_now sv (clock_reads w))),
         w\<lparr>prompts_sent := prompts_sent w @ [notes_prompt doc],
           clock_reads := Suc (clock_reads w)\<rparr>)) \<and>
   (NotesAgent_validate_notes sv doc w = (Inr r, w') \<longrightarrow>
      length (prompts_sent w') = length (prompts_sent w) + 1 \<and>
      r = AnalysisResult ''Notes'' (analysis r)
            (NotesAgent_calculate_compliance_score (analysis r)) (timestamp r))"
proof (intro conjI impI)
  assume "llm sv (prompts_sent w) (balance_sheet_prompt doc) = Inr a1 \<and>
    llm sv (prompts_sent w @ [balance_sheet_prompt doc]) (self_reflection_prompt a1) = Inr a2"
  then show "BalanceSheetAgent_validate_balance_sheet sv doc w =
        (Inr (RefinedResult ''Balance Sheet'' a1 a2
               (BalanceSheetAgent_calculate_compliance_score a2)
               (isoformat_now sv (clock_reads w))),
         w\<lparr>prompts_sent := prompts_sent w @ [balance_sheet_prompt doc, self_reflection_prompt a1],
           clock_reads := Suc (clock_reads w)\<rparr>)"
    using BS_returns by blast
next
  assume h: "BalanceSheetAgent_validate_balance_sheet sv doc w = (Inr r, w')"
  from BS_result[OF h] show "length (prompts_sent w') = length (prompts_sent w) + 2" by auto
  from BS_result[OF h]
  show "r = RefinedResult ''Balance Sheet'' (initial_analysis r) (refined_analysis r)
            (BalanceSheetAgent_calculate_compliance_score (refined_analysis r)) (timestamp r)"
    by auto
next
  assume "llm sv (prompts_sent w) (profit_loss_prompt doc) = Inr a"
  then show "ProfitLossAgent_validate_profit_loss sv doc w =
        (Inr (AnalysisResult ''Profit & Loss'' a
               (ProfitLossAgent_calculate_compliance_score a) (isoformat_now sv (clock_reads w))),
         w\<lparr>prompts_sent := prompts_sent w @ [profit_loss_prompt doc],
           clock_reads := Suc (clock_reads w)\<rparr>)"
    by (rule PL_returns)
next
  assume h: "ProfitLossAgent_validate_profit_loss sv doc w = (Inr r, w')"
  from PL_result[OF h] show "length (prompts_sent w') = length (prompts_sent w) + 1" by auto
  from PL_result[OF h]
  show "r = AnalysisResult ''Profit & Loss'' (analysis r)
            (ProfitLossAgent_calculate_compliance_score (analysis r)) (timestamp r)"
    by auto
next
  assume "llm sv (prompts_sent w) (cash_flow_prompt doc) = Inr a"
  then show "CashFlowAgent_validate_cash_flow sv doc w =
        (Inr (AnalysisResult ''Cash Flow'' a
               (CashFlowAgent_calculate_compliance_score a) (isoformat_now sv (clock_reads w))),
         w\<lparr>prompts_sent := prompts_sent w @ [cash_flow_prompt doc],
           clock_reads := Suc (clock_reads w)\<rparr>)"
    by (rule CF_returns)
next
  assume h: "CashFlowAgent_validate_cash_flow sv doc w = (Inr r, w')"
  from CF_result[OF h] show "length (prompts_sent w') = length (prompts_sent w) + 1" by auto
  from CF_result[OF h]
  show "r = AnalysisResult ''Cash Flow'' (analysis r)
            (CashFlowAgent_calculate_compliance_score (analysis r)) (timestamp r)"
    by auto
next
  assume "llm sv (prompts_sent w) (notes_prompt doc) = Inr a"
  then show "NotesAgent_validate_notes sv doc w =
        (Inr (AnalysisResult ''Notes'' a
               (NotesAgent_calculate_compliance_score a) (isoformat_now sv (clock_reads w))),
         w\<lparr>prompts_sent := prompts_sent w @ [notes_prompt doc],
           clock_reads := Suc (clock_reads w)\<rparr>)"
    by (rule Notes_returns)
next
  assume h: "NotesAgent_validate_notes sv doc w = (Inr r, w')"
  from Notes_result[OF h] show "length (prompts_sent w') = length (prompts_sent w) + 1" by auto
  from Notes_result[OF h]
  show "r = AnalysisResult ''Notes'' (analysis r)
            (NotesAgent_calculate_compliance_score (analysis r)) (timestamp r)"
    by auto
qed

theorem two_pass_and_single_pass_witness:
  "BalanceSheetAgent_validate_balance_sheet steady_services ''Assets'' fresh_world =
     (Inr (RefinedResult ''Balance Sheet'' ''The statement is compliant.''
             ''The statement is compliant.'' 60 ''2024-01-01T00:00:00''),
      \<lparr>prompts_sent = [balance_sheet_prompt ''Assets'',
                        self_reflection_prompt ''The statement is compliant.''],
       clock_reads = 1\<rparr>) \<and>
   length (prompts_sent (snd (BalanceSheetAgent_validate_balance_sheet steady_services
     ''Assets'' fresh_world))) = 2 \<and>
   ProfitLossAgent_validate_profit_loss steady_services ''Assets'' fresh_world =
     (Inr (AnalysisResult ''Profit & Loss'' ''The statement is compliant.'' 60
             ''2024-01-01T00:00:00''),
      \<lparr>prompts_sent = [profit_loss_prompt ''Assets''], clock_reads = 1\<rparr>) \<and>
   CashFlowAgent_validate_cash_flow steady_services ''Assets'' fresh_world =
     (Inr (AnalysisResult ''Cash Flow'' ''The statement is compliant.'' 60
             ''2024-01-01T00:00:00''),
      \<lparr>prompts_sent = [cash_flow_prompt ''Assets''], clock_reads = 1\<rparr>) \<and>
   NotesAgent_validate_notes steady_services ''Assets'' fresh_world =
     (Inr (AnalysisResult ''Notes'' ''The statement is compliant.'' 60
             ''2024-01-01T00:00:00''),
      \<lparr>prompts_sent = [notes_prompt ''Assets''], clock_reads = 1\<rparr>)"
proof -
  note t = two_pass_and_single_pass[of steady_services fresh_world "''Assets''"
      "''The statement is compliant.''" "''The statement is compliant.''"
      "RefinedResult ''Balance Sheet'' ''The statement is compliant.''
         ''The statement is compliant.'' 60 ''2024-01-01T00:00:00''"
      "\<lparr>prompts_sent = [balance_sheet_prompt ''Assets'',
                         self_reflection_prompt ''The statement is compliant.''],
        clock_reads = 1\<rparr>"
      "''The statement is compliant.''"]
  have bs: "BalanceSheetAgent_validate_balance_sheet steady_services ''Assets'' fresh_world =
     (Inr (RefinedResult ''Balance Sheet'' ''The statement is compliant.''
             ''The statement is compliant.'' 60 ''2024-01-01T00:00:00''),
      \<lparr>prompts_sent = [balance_sheet_prompt ''Assets'',
                        self_reflection_prompt ''The statement is compliant.''],
       clock_reads = 1\<rparr>)"
    using t by (simp add: steady_llm steady_now score_steady fresh_world_def)
  have len: "length (prompts_sent (snd (BalanceSheetAgent_validate_balance_sheet steady_services
     ''Assets'' fresh_world))) = 2"
    using t unfolding bs by simp
  have pl: "ProfitLossAgent_validate_profit_loss steady_services ''Assets'' fresh_world =
     (Inr (AnalysisResult ''Profit & Loss'' ''The statement is compliant.'' 60
             ''2024-01-01T00:00:00''),
      \<lparr>prompts_sent = [profit_loss_prompt ''Assets''], clock_reads = 1\<rparr>)"
    using t by (simp add: steady_llm steady_now score_steady ProfitLoss_score_eq fresh_world_def)
  have cf: "CashFlowAgent_validate_cash_flow steady_services ''Assets'' fresh_world =
     (Inr (AnalysisResult ''Cash Flow'' ''The statement is compliant.'' 60
             ''2024-01-01T00:00:00''),
      \<lparr>prompts_sent = [cash_flow_prompt ''Assets''], clock_reads = 1\<rparr>)"
    using t by (simp add: steady_llm steady_now score_steady CashFlow_score_eq fresh_world_def)
  have nt: "NotesAgent_validate_notes steady_services ''Assets'' fresh_world =
     (Inr (AnalysisResult ''Notes'' ''The statement is compliant.'' 60
             ''2024-01-01T00:00:00''),
      \<lparr>prompts_sent = [notes_prompt ''Assets''], clock_reads = 1\<rparr>)"
    using t by (simp add: steady_llm steady_now score_steady Notes_score_eq fresh_world_def)
  from bs len pl cf nt show ?thesis by (intro conjI)
qed

text \<open>
  C10: the meta-prompt that the balance sheet validation builds goes into no completion
  call: for every service, text and world, the validation returns the same result and
  leaves the same world, with the same prompts sent, as the validation without the
  construction of the meta-prompt.
\<close>

theorem meta_prompt_unused:
  "BalanceSheetAgent_validate_balance_sheet sv doc w =
   validate_balance_sheet_without_meta_prompt sv doc w"
  unfolding BalanceSheetAgent_validate_balance_sheet_def
    validate_balance_sheet_without_meta_prompt_def
  by (simp only: Let_def)

lemma filter_neq_removeAll: "filter (\<lambda>a. a \<noteq> k) xs = removeAll k xs"
  by (induction xs) auto

text \<open>
  C3: when the validation of exactly one enabled agent k fails, with message e, and the
  validations of all other enabled agents return, the run reports exactly one error, the
  one of k, collects one result for every other enabled agent, in their order, and none
  for k, so one result less than there are enabled agents, and completes: the status
  line says so and the progress bar is full.
\<close>

theorem failure_isolation:
  assumes "(k, Inl e) \<in> set (agent_outcomes sv doc (initialize_agents sc) w)"
    and "\<forall>(a, out) \<in> set (agent_outcomes sv doc (initialize_agents sc) w).
           a \<noteq> k \<longrightarrow> (\<exists>r. out = Inr r)"
  shows "errors (start_validation sv sc doc w) =
           [''Error in '' @ agent_name k @ '' validation: '' @ e] \<and>
         map agent (validation_results (start_validation sv sc doc w)) =
           map result_agent (removeAll k (initialize_agents sc)) \<and>
         length (validation_results (start_validation sv sc doc w)) =
           length (initialize_agents sc) - 1 \<and>
         result_agent k \<notin> set (map agent (validation_results (start_validation sv sc doc w))) \<and>
         status_text (start_validation sv sc doc w) = ''Validation complete!'' \<and>
         progress_bar (start_validation sv sc doc w) = 1"
proof -
  let ?as = "initialize_agents sc"
  let ?outs = "agent_outcomes sv doc ?as w"
  have fst_outs: "map fst ?outs = ?as" by (rule agent_outcomes_agents)
  have dist: "distinct (map fst ?outs)"
    unfolding fst_outs by (rule distinct_initialize_agents)
  have k_in: "k \<in> set ?as"
    using assms(1) fst_outs by (metis fst_conv image_eqI set_map)
  have iff: "\<forall>(a, out) \<in> set ?outs. a \<noteq> k \<longleftrightarrow> (\<exists>r. out = Inr r)"
  proof (intro ballI, clarify)
    fix a out assume m: "(a, out) \<in> set ?outs"
    show "a \<noteq> k \<longleftrightarrow> (\<exists>r. out = Inr r)"
    proof (cases "a = k")
      case True
      with m assms(1) dist have "out = Inl e" by (metis eq_key_imp_eq_value)
      with True show ?thesis by simp
    next
      case False
      with m assms(2) show ?thesis by auto
    qed
  qed
  have lab: "\<forall>(a, out) \<in> set ?outs. \<forall>r. out = Inr r \<longrightarrow> agent r = result_agent a"
    using agent_outcomes_result by blast
  have err: "errors (start_validation sv sc doc w) =
      [''Error in '' @ agent_name k @ '' validation: '' @ e]"
    unfolding start_validation_errors using dist assms by (rule errors_of_one)
  have "map agent (results_of ?outs) = map result_agent (filter (\<lambda>a. a \<noteq> k) (map fst ?outs))"
    using iff lab by (rule results_of_labels)
  moreover have "filter (\<lambda>a. a \<noteq> k) ?as = removeAll k ?as"
    by (rule filter_neq_removeAll)
  ultimately have labels: "map agent (validation_results (start_validation sv sc doc w)) =
      map result_agent (removeAll k ?as)"
    unfolding start_validation_results fst_outs by simp
  have "length (removeAll k ?as) = length ?as - 1"
    using k_in distinct_initialize_agents[of sc]
    by (metis distinct_remove1_removeAll length_remove1)
  with labels have len: "length (validation_results (start_validation sv sc doc w)) =
      length ?as - 1"
    by (metis length_map)
  have notin: "result_agent k \<notin> set (map agent (validation_results (start_validation sv sc doc w)))"
    unfolding labels using result_agent_inj by auto
  have "?as \<noteq> []" using k_in by auto
  then have prog: "progress_bar (start_validation sv sc doc w) = 1"
    by (rule start_validation_progress)
  from err labels len notin start_validation_status[of sv sc doc w] prog
  show ?thesis by (intro conjI)
qed

theorem failure_isolation_witness:
  "errors (start_validation fourth_call_fails all_agents ''Assets'' fresh_world) =
     [''Error in Cash Flow validation: rate limit exceeded''] \<and>
   map agent (validation_results
     (start_validation fourth_call_fails all_agents ''Assets'' fresh_world)) =
     [''Balance Sheet'', ''Profit & Loss'', ''Notes''] \<and>
   length (initialize_agents all_agents) = 4 \<and>
   length (validation_results
     (start_validation fourth_call_fails all_agents ''Assets'' fresh_world)) = 3 \<and>
   status_text (start_validation fourth_call_fails all_agents ''Assets'' fresh_world) =
     ''Validation complete!''"
proof -
  have h1: "(CashFlowAgent, Inl ''rate limit exceeded'') \<in>
      set (agent_outcomes fourth_call_fails ''Assets'' (initialize_agents all_agents) fresh_world)"
    by (simp add: fourth_outcomes)
  have h2: "\<forall>(a, out) \<in> set (agent_outcomes fourth_call_fails ''Assets''
        (initialize_agents all_agents) fresh_world).
      a \<noteq> CashFlowAgent \<longrightarrow> (\<exists>r. out = Inr r)"
    by (simp add: fourth_outcomes)
  have as: "initialize_agents all_agents =
      [BalanceSheetAgent, ProfitLossAgent, CashFlowAgent, NotesAgent]"
    by (simp add: initialize_agents_def all_agents_def)
  show ?thesis
    using failure_isolation[OF h1 h2] by (simp add: as)
qed

text \<open>
  C6: the agents run in the canonical order, balance sheet, profit and loss, cash flow,
  notes, restricted to the enabled ones, and the collected results are the results of the
  enabled agents whose validation returned, in that order; when no error is reported they
  are the results of all enabled agents in that order. The scope holds one checkbox for
  each agent, so the enabled set comes with no order of its own.
\<close>

theorem results_in_canonical_order:
  "initialize_agents sc = filter (enabled sc) canonical_order \<and>
   map agent (validation_results (start_validation sv sc doc w)) =
     map result_agent
       (filter (\<lambda>a. \<exists>r. (a, Inr r) \<in> set (agent_outcomes sv doc (initialize_agents sc) w))
          (filter (enabled sc) canonical_order)) \<and>
   (errors (start_validation sv sc doc w) = [] \<longrightarrow>
      map agent (validation_results (start_validation sv sc doc w)) =
        map result_agent (filter (enabled sc) canonical_order))"
proof (intro conjI impI)
  let ?as = "initialize_agents sc"
  let ?outs = "agent_outcomes sv doc ?as w"
  show can: "?as = filter (enabled sc) canonical_order"
    by (rule initialize_agents_canonical)
  have fst_outs: "map fst ?outs = ?as" by (rule agent_outcomes_agents)
  have dist: "distinct (map fst ?outs)"
    unfolding fst_outs by (rule distinct_initialize_agents)
  have lab: "\<forall>(a, out) \<in> set ?outs. \<forall>r. out = Inr r \<longrightarrow> agent r = result_agent a"
    using agent_outcomes_result by blast
  have iff: "\<forall>(a, out) \<in> set ?outs. (\<exists>r. (a, Inr r) \<in> set ?outs) \<longleftrightarrow> (\<exists>r. out = Inr r)"
  proof (intro ballI, clarify)
    fix a out assume m: "(a, out) \<in> set ?outs"
    show "(\<exists>r. (a, Inr r) \<in> set ?outs) \<longleftrightarrow> (\<exists>r. out = Inr r)"
    proof
      assume "\<exists>r. (a, Inr r) \<in> set ?outs"
      then obtain r where "(a, Inr r) \<in> set ?outs" ..
      with m dist have "out = Inr r" by (metis eq_key_imp_eq_value)
      then show "\<exists>r. out = Inr r" ..
    next
      assume "\<exists>r. out = Inr r"
      with m show "\<exists>r. (a, Inr r) \<in> set ?outs" by auto
    qed
  qed
  have "map agent (results_of ?outs) =
      map result_agent (filter (\<lambda>a. \<exists>r. (a, Inr r) \<in> set ?outs) (map fst ?outs))"
    using iff lab by (rule results_of_labels)
  then show "map agent (validation_results (start_validation sv sc doc w)) =
     map result_agent (filter (\<lambda>a. \<exists>r. (a, Inr r) \<in> set ?outs)
          (filter (enabled sc) canonical_order))"
    unfolding start_validation_results fst_outs can[symmetric] .
  assume "errors (start_validation sv sc doc w) = []"
  then have none: "errors_of ?outs = []" by (simp add: start_validation_errors)
  have all: "\<forall>(a, out) \<in> set ?outs. True \<longleftrightarrow> (\<exists>r. out = Inr r)"
    using errors_of_all_succeed[OF none] by auto
  have "map agent (results_of ?outs) = map result_agent (filter (\<lambda>a. True) (map fst ?outs))"
    using all lab by (rule results_of_labels)
  then show "map agent (validation_results (start_validation sv sc doc w)) =
        map result_agent (filter (enabled sc) canonical_order)"
    unfolding start_validation_results fst_outs can[symmetric] by simp
qed

theorem results_in_canonical_order_witness:
  "errors (start_validation steady_services all_agents ''Assets'' fresh_world) = [] \<and>
   map agent (validation_results
     (start_validation steady_services all_agents ''Assets'' fresh_world)) =
     [''Balance Sheet'', ''Profit & Loss'', ''Cash Flow'', ''Notes'']"
proof -
  have e: "errors (start_validation steady_services all_agents ''Assets'' fresh_world) = []"
    by (simp add: start_validation_errors steady_outcomes)
  have c: "filter (enabled all_agents) canonical_order =
      [BalanceSheetAgent, ProfitLossAgent, CashFlowAgent, NotesAgent]"
    by (simp add: canonical_order_def all_agents_def)
  note t = results_in_canonical_order[of all_agents steady_services "''Assets''" fresh_world]
  from t[THEN conjunct2, THEN conjunct2] e
  have "map agent (validation_results
      (start_validation steady_services all_agents ''Assets'' fresh_world)) =
      map result_agent (filter (enabled all_agents) canonical_order)"
    by (rule mp)
  then have "map agent (validation_results
      (start_validation steady_services all_agents ''Assets'' fresh_world)) =
      [''Balance Sheet'', ''Profit & Loss'', ''Cash Flow'', ''Notes'']"
    unfolding c by simp
  with e show ?thesis by (intro conjI)
qed

text \<open>
  C7: the score is a function of the analysis text alone, the same in all four agent
  classes, and lies between 0 and 100; so does the compliance score of every result that
  a run collects.
\<close>

theorem compliance_score_in_range:
  "0 \<le> BalanceSheetAgent_calculate_compliance_score T \<and>
   BalanceSheetAgent_calculate_compliance_score T \<le> 100 \<and>
   ProfitLossAgent_calculate_compliance_score T = BalanceSheetAgent_calculate_compliance_score T \<and>
   CashFlowAgent_calculate_compliance_score T = BalanceSheetAgent_calculate_compliance_score T \<and>
   NotesAgent_calculate_compliance_score T = BalanceSheetAgent_calculate_compliance_score T \<and>
   (\<forall>r \<in> set (validation_results (start_validation sv sc doc w)).
      0 \<le> compliance_score r \<and> compliance_score r \<le> 100)"
proof (intro conjI ballI)
  show "0 \<le> BalanceSheetAgent_calculate_compliance_score T"
    and "BalanceSheetAgent_calculate_compliance_score T \<le> 100"
    using score_bounds[of T] by simp_all
  show "ProfitLossAgent_calculate_compliance_score T =
      BalanceSheetAgent_calculate_compliance_score T"
    by (simp add: ProfitLoss_score_eq)
  show "CashFlowAgent_calculate_compliance_score T =
      BalanceSheetAgent_calculate_compliance_score T"
    by (simp add: CashFlow_score_eq)
  show "NotesAgent_calculate_compliance_score T =
      BalanceSheetAgent_calculate_compliance_score T"
    by (simp add: Notes_score_eq)
next
  fix r assume "r \<in> set (validation_results (start_validation sv sc doc w))"
  then obtain a where
    "(a, Inr r) \<in> set (agent_outcomes sv doc (initialize_agents sc) w)"
    unfolding start_validation_results using results_of_member by blast
  then have b: "0 \<le> compliance_score r \<and> compliance_score r \<le> 100"
    using agent_outcomes_result by blast
  from b show "0 \<le> compliance_score r" ..
  from b show "compliance_score r \<le> 100" ..
qed

theorem compliance_score_in_range_witness:
  "AnalysisResult ''Notes'' ''The statement is compliant.'' 60 ''2024-01-01T00:00:00''
     \<in> set (validation_results
          (start_validation steady_services all_agents ''Assets'' fresh_world)) \<and>
   0 \<le> compliance_score
          (AnalysisResult ''Notes'' ''The statement is compliant.'' 60 ''2024-01-01T00:00:00'') \<and>
   compliance_score
     (AnalysisResult ''Notes'' ''The statement is compliant.'' 60 ''2024-01-01T00:00:00'') \<le> 100"
proof -
  have m: "AnalysisResult ''Notes'' ''The statement is compliant.'' 60 ''2024-01-01T00:00:00''
     \<in> set (validation_results
          (start_validation steady_services all_agents ''Assets'' fresh_world))"
    by (simp add: start_validation_results steady_outcomes)
  show ?thesis
    using compliance_score_in_range[of "''Assets''" steady_services all_agents "''Assets''"
        fresh_world] m
    by blast
qed

lemma initialize_no_agents: "initialize_agents no_agents = []"
  by (simp add: initialize_agents_def no_agents_def)

lemma empty_run:
  assumes "initialize_agents sc = []"
  shows "start_validation sv sc doc w =
     \<lparr>status_text = ''Validation complete!'', progress_bar = 0, errors = [],
      validation_results = [], metrics = Inr None, outside = w\<rparr>"
  using assms by (simp add: start_validation_def Let_def validation_dashboard_def)

text \<open>
  C2, as stated, fails: a run with no agent enabled reports no error of any kind; it ends
  with the status "Validation complete!" and an empty list of results.
\<close>

theorem empty_scope_counterexample:
  "errors (start_validation steady_services no_agents ''Assets'' fresh_world) = [] \<and>
   status_text (start_validation steady_services no_agents ''Assets'' fresh_world) =
     ''Validation complete!'' \<and>
   validation_results (start_validation steady_services no_agents ''Assets'' fresh_world) = []"
  by (simp add: empty_run[OF initialize_no_agents])

text \<open>
  C2, amended: a run with no agent enabled makes no completion call and never reads the
  clock, so the world is left as it was; it reports no error, collects no result, shows no
  metric, leaves the progress bar at 0 and ends with the status "Validation complete!".
  No agent is enabled exactly when all four checkboxes are off.
\<close>

theorem empty_scope_run:
  "(initialize_agents sc = [] \<longrightarrow>
      start_validation sv sc doc w =
        \<lparr>status_text = ''Validation complete!'', progress_bar = 0, errors = [],
         validation_results = [], metrics = Inr None, outside = w\<rparr> \<and>
      prompts_sent (outside (start_validation sv sc doc w)) = prompts_sent w) \<and>
   (initialize_agents sc = [] \<longleftrightarrow>
      \<not> validate_balance_sheet sc \<and> \<not> validate_profit_loss sc \<and>
      \<not> validate_cash_flow sc \<and> \<not> validate_notes sc)"
proof (intro conjI impI)
  assume h: "initialize_agents sc = []"
  show "start_validation sv sc doc w =
        \<lparr>status_text = ''Validation complete!'', progress_bar = 0, errors = [],
         validation_results = [], metrics = Inr None, outside = w\<rparr>"
    using h by (rule empty_run)
  then show "prompts_sent (outside (start_validation sv sc doc w)) = prompts_sent w"
    by simp
next
  show "initialize_agents sc = [] \<longleftrightarrow>
      \<not> validate_balance_sheet sc \<and> \<not> validate_profit_loss sc \<and>
      \<not> validate_cash_flow sc \<and> \<not> validate_notes sc"
    by (simp add: initialize_agents_def)
qed

theorem empty_scope_run_witness:
  "initialize_agents no_agents = [] \<and>
   start_validation fourth_call_fails no_agents ''Assets'' fresh_world =
     \<lparr>status_text = ''Validation complete!'', progress_bar = 0, errors = [],
      validation_results = [], metrics = Inr None, outside = fresh_world\<rparr> \<and>
   prompts_sent (outside (start_validation fourth_call_fails no_agents ''Assets'' fresh_world)) = []"
  using empty_scope_run[of no_agents fourth_call_fails "''Assets''" fresh_world]
    initialize_no_agents
  by (simp add: fresh_world_def)

section \<open>The float of a quotient\<close>

lemma bit_length_240: "bit_length 240 = 8"
  by code_simp

lemma bit_length_3: "bit_length 3 = 2"
  by code_simp

lemma int_true_divide_240_3: "int_true_divide 240 3 = Inr 80"
  by (simp add: int_true_divide_def float_exponent_def round_half_even_div_def
      bit_length_240 bit_length_3 Let_def)

lemma bit_length_upper: "n < 2 ^ bit_length n"
proof (induction n rule: bit_length.induct)
  case (1 n)
  show ?case
  proof (cases "n = 0")
    case True
    then show ?thesis by (simp add: bit_length.simps)
  next
    case False
    with 1 have "n div 2 < 2 ^ bit_length (n div 2)" by simp
    then have "n < 2 * 2 ^ bit_length (n div 2)" by linarith
    with False show ?thesis by (subst bit_length.simps) simp
  qed
qed

lemma bit_length_pos: "0 < n \<Longrightarrow> 0 < bit_length n"
  by (subst bit_length.simps) simp

lemma bit_length_lower: "0 < n \<Longrightarrow> 2 ^ (bit_length n - 1) \<le> n"
proof (induction n rule: bit_length.induct)
  case (1 n)
  from "1.prems" have n0: "n \<noteq> 0" by simp
  have bl: "bit_length n = Suc (bit_length (n div 2))"
    using n0 by (subst bit_length.simps) simp
  show ?case
  proof (cases "n div 2 = 0")
    case True
    then show ?thesis using "1.prems" bl by (simp add: bit_length.simps[of 0])
  next
    case False
    then have pos: "0 < n div 2" by simp
    with 1 n0 have ih: "2 ^ (bit_length (n div 2) - 1) \<le> n div 2" by simp
    from bit_length_pos[OF pos] have
      "(2::nat) ^ bit_length (n div 2) = 2 * 2 ^ (bit_length (n div 2) - 1)"
      by (cases "bit_length (n div 2)") simp_all
    with ih have "2 ^ bit_length (n div 2) \<le> 2 * (n div 2)" by simp
    also have "\<dots> \<le> n" by simp
    finally show ?thesis by (simp add: bl)
  qed
qed

lemma float_exponent_lower:
  assumes "0 < x" "0 < y" "0 \<le> float_exponent x y"
  shows "y * 2 ^ nat (float_exponent x y) \<le> x"
proof -
  define k where "k = int (bit_length x) - int (bit_length y)"
  show ?thesis
  proof (cases "if 0 \<le> k then y * 2 ^ nat k \<le> x else y \<le> x * 2 ^ nat (- k)")
    case True
    then have e: "float_exponent x y = k"
      unfolding float_exponent_def Let_def k_def[symmetric] by simp
    with assms(3) have "0 \<le> k" by simp
    with True have "y * 2 ^ nat k \<le> x" by simp
    then show ?thesis by (simp add: e)
  next
    case False
    then have e: "float_exponent x y = k - 1"
      unfolding float_exponent_def Let_def k_def[symmetric] by simp
    with assms(3) have k1: "1 \<le> k" by simp
    then have bl: "bit_length x = bit_length y + nat (k - 1) + 1"
      unfolding k_def by linarith
    have "y * 2 ^ nat (k - 1) \<le> 2 ^ bit_length y * 2 ^ nat (k - 1)"
      using bit_length_upper[of y] by (simp add: less_imp_le)
    also have "\<dots> = 2 ^ (bit_length x - 1)"
      by (simp add: bl power_add)
    also have "\<dots> \<le> x" using assms(1) by (rule bit_length_lower)
    finally show ?thesis by (simp add: e)
  qed
qed

lemma round_half_even_div_error:
  assumes "0 < d"
  shows "\<bar>real_of_int (round_half_even_div n d) - real_of_int n / real_of_int d\<bar> \<le> 1 / 2"
proof -
  define f where "f = n div d"
  define r where "r = n mod d"
  have n: "n = d * f + r" by (simp add: f_def r_def)
  have r0: "0 \<le> r" and rd: "r < d" using assms by (simp_all add: r_def)
  have q: "real_of_int n / real_of_int d = real_of_int f + real_of_int r / real_of_int d"
    using assms by (simp add: n field_simps)
  have lo: "0 \<le> real_of_int r / real_of_int d" using r0 assms by simp
  have hi: "real_of_int r / real_of_int d < 1" using rd assms by simp
  show ?thesis
  proof (cases "2 * r < d")
    case True
    then have "round_half_even_div n d = f"
      by (simp add: round_half_even_div_def f_def r_def Let_def)
    moreover have "real_of_int r / real_of_int d \<le> 1 / 2"
    proof -
      from True have "real_of_int (2 * r) < real_of_int d" by (simp only: of_int_less_iff)
      then show ?thesis using assms by (simp add: field_simps)
    qed
    ultimately show ?thesis using lo by (simp add: q)
  next
    case False
    show ?thesis
    proof (cases "d < 2 * r")
      case True
      with False have "round_half_even_div n d = f + 1"
        by (simp add: round_half_even_div_def f_def r_def Let_def)
      moreover have "1 / 2 \<le> real_of_int r / real_of_int d"
      proof -
        from True have "real_of_int d < real_of_int (2 * r)" by (simp only: of_int_less_iff)
        then show ?thesis using assms by (simp add: field_simps)
      qed
      ultimately show ?thesis using hi by (simp add: q)
    next
      case F2: False
      with False have eq: "2 * r = d" by simp
      have half: "real_of_int r / real_of_int d = 1 / 2"
      proof -
        from eq have "real_of_int (2 * r) = real_of_int d" by simp
        then show ?thesis using assms by (simp add: field_simps)
      qed
      have "round_half_even_div n d = f \<or> round_half_even_div n d = f + 1"
        using eq by (simp add: round_half_even_div_def f_def r_def Let_def)
      then show ?thesis by (auto simp: q half)
    qed
  qed
qed

lemma round_half_even_div_exact:
  assumes "0 < d" "d dvd n"
  shows "real_of_int (round_half_even_div n d) = real_of_int n / real_of_int d"
proof -
  from assms(2) have r: "n mod d = 0" by simp
  then have "round_half_even_div n d = n div d"
    using assms(1) by (simp add: round_half_even_div_def Let_def)
  moreover have "real_of_int (n div d) = real_of_int n / real_of_int d"
    using assms(2) by (simp add: real_of_int_div)
  ultimately show ?thesis by simp
qed

lemma int_true_divide_pos_small:
  assumes "0 < a" "0 < b" "max (float_exponent (nat a) (nat b) - 52) (- 1074) < 0"
  shows "int_true_divide a b =
     Inr (real_of_int (round_half_even_div
            (a * 2 ^ nat (- max (float_exponent (nat a) (nat b) - 52) (- 1074))) b) /
          2 ^ nat (- max (float_exponent (nat a) (nat b) - 52) (- 1074)))"
proof -
  have "\<bar>a\<bar> = a" "\<bar>b\<bar> = b" "sgn a = 1" "sgn b = 1" "a \<noteq> 0" "b \<noteq> 0"
    using assms(1,2) by simp_all
  moreover have "\<not> 0 \<le> max (float_exponent (nat a) (nat b) - 52) (- 1074)"
    "\<not> 971 < max (float_exponent (nat a) (nat b) - 52) (- 1074)"
    "max (float_exponent (nat a) (nat b) - 52) (- 1074) \<noteq> 971"
    using assms(3) by linarith+
  ultimately show ?thesis
    using assms(1,2) unfolding int_true_divide_def Let_def by (simp del: max_less_iff_conj)
qed

lemma int_true_divide_small:
  assumes "0 < b" "0 \<le> a" "a \<le> 100 * b"
  shows "\<exists>avg. int_true_divide a b = Inr avg \<and>
           \<bar>avg - real_of_int a / real_of_int b\<bar> \<le> 1 / 2 ^ 47 \<and>
           (b dvd a \<longrightarrow> avg = real_of_int a / real_of_int b)"
proof (cases "a = 0")
  case True
  with assms(1) show ?thesis by (simp add: int_true_divide_def)
next
  case False
  with assms(2) have apos: "0 < a" by simp
  define x where "x = nat a"
  define y where "y = nat b"
  define e where "e = float_exponent x y"
  define q where "q = max (e - 52) (- 1074)"
  define p where "p = nat (- q)"
  define m where "m = round_half_even_div (int x * 2 ^ p) (int y)"
  have x: "int x = a" "0 < x" using apos by (simp_all add: x_def)
  have y: "int y = b" "0 < y" using assms(1) by (simp_all add: y_def)
  have e6: "e \<le> 6"
  proof (rule ccontr)
    assume "\<not> e \<le> 6"
    then have e7: "7 \<le> e" by simp
    then have "y * 2 ^ nat e \<le> x"
      unfolding e_def using float_exponent_lower[OF x(2) y(2)] by simp
    moreover have "(2::nat) ^ 7 \<le> 2 ^ nat e"
      using e7 by (intro power_increasing) simp_all
    ultimately have "y * 2 ^ 7 \<le> x"
      by (meson le_trans mult_le_mono2)
    then have "y * 128 \<le> x" by simp
    then have "int (y * 128) \<le> int x" by (simp only: of_nat_le_iff)
    then have "b * 128 \<le> a" by (simp add: x y)
    with assms(3) assms(1) show False by simp
  qed
  then have qneg: "q \<le> - 46" by (simp add: q_def)
  then have p46: "46 \<le> p" by (simp add: p_def)
  have "max (float_exponent (nat a) (nat b) - 52) (- 1074) < 0"
    using qneg unfolding q_def e_def x_def y_def by linarith
  from int_true_divide_pos_small[OF apos assms(1) this]
  have val: "int_true_divide a b = Inr (real_of_int m / 2 ^ p)"
    unfolding m_def p_def q_def e_def x(1) y(1) unfolding x_def y_def .
  have err: "\<bar>real_of_int m - real_of_int (int x * 2 ^ p) / real_of_int (int y)\<bar> \<le> 1 / 2"
    unfolding m_def using y by (intro round_half_even_div_error) simp
  have sc: "real_of_int (int x * 2 ^ p) / real_of_int (int y) =
      (real_of_int a / real_of_int b) * 2 ^ p"
    by (simp add: x y)
  have eq: "real_of_int m / 2 ^ p - real_of_int a / real_of_int b =
      (real_of_int m - (real_of_int a / real_of_int b) * 2 ^ p) / 2 ^ p"
    by (simp add: diff_divide_distrib)
  have "\<bar>real_of_int m / 2 ^ p - real_of_int a / real_of_int b\<bar> =
      \<bar>real_of_int m - (real_of_int a / real_of_int b) * 2 ^ p\<bar> / 2 ^ p"
    unfolding eq by (simp add: abs_divide)
  also have "\<dots> \<le> (1 / 2) / 2 ^ p"
    using err unfolding sc by (intro divide_right_mono) simp_all
  also have "\<dots> = 1 / 2 ^ (Suc p)" by simp
  also have "\<dots> \<le> 1 / 2 ^ 47"
    using p46 by (intro divide_left_mono power_increasing) simp_all
  finally have bound: "\<bar>real_of_int m / 2 ^ p - real_of_int a / real_of_int b\<bar> \<le> 1 / 2 ^ 47" .
  have exact: "real_of_int m / 2 ^ p = real_of_int a / real_of_int b" if "b dvd a"
  proof -
    from that have "int y dvd int x * 2 ^ p" by (simp add: x y)
    then have "real_of_int m = real_of_int (int x * 2 ^ p) / real_of_int (int y)"
      unfolding m_def using y by (intro round_half_even_div_exact) simp_all
    then show ?thesis unfolding sc by simp
  qed
  from val bound exact show ?thesis by blast
qed

lemma int_true_divide_no_zero_division:
  "b \<noteq> 0 \<Longrightarrow> int_true_divide a b \<noteq> Inl ZeroDivisionError"
  by (simp add: int_true_divide_def Let_def)

section \<open>The dashboard\<close>

lemma dashboard_of_scores:
  assumes "rs \<noteq> []" and "\<forall>r \<in> set rs. 0 \<le> compliance_score r \<and> compliance_score r \<le> 100"
  shows "\<exists>d. validation_dashboard rs = Inr (Some d) \<and>
     int_true_divide (sum_list (map compliance_score rs)) (int (length rs)) =
       Inr (overall_compliance d) \<and>
     \<bar>overall_compliance d -
        real_of_int (sum_list (map compliance_score rs)) / real (length rs)\<bar> \<le> 1 / 2 ^ 47 \<and>
     (int (length rs) dvd sum_list (map compliance_score rs) \<longrightarrow>
        overall_compliance d =
          real_of_int (sum_list (map compliance_score rs)) / real (length rs)) \<and>
     agents_used d = length rs \<and>
     issues_found d = card {i. i < length rs \<and> compliance_score (rs ! i) < 80}"
proof -
  let ?a = "sum_list (map compliance_score rs)"
  let ?b = "int (length rs)"
  have b: "0 < ?b" using assms(1) by simp
  have lo: "0 \<le> ?a" using assms(2) by (intro sum_list_nonneg) auto
  have "?a \<le> (\<Sum>r\<leftarrow>rs. 100)"
    using assms(2) by (intro sum_list_mono) auto
  then have hi: "?a \<le> 100 * ?b" by (simp add: sum_list_triv)
  from int_true_divide_small[OF b lo hi] obtain avg where
    v: "int_true_divide ?a ?b = Inr avg"
    and e: "\<bar>avg - real_of_int ?a / real_of_int ?b\<bar> \<le> 1 / 2 ^ 47"
    and x: "?b dvd ?a \<longrightarrow> avg = real_of_int ?a / real_of_int ?b"
    by blast
  have c: "length (filter (\<lambda>r. compliance_score r < 80) rs) =
      card {i. i < length rs \<and> compliance_score (rs ! i) < 80}"
    by (rule length_filter_conv_card)
  have d: "validation_dashboard rs =
      Inr (Some \<lparr>overall_compliance = avg, agents_used = length rs,
                 issues_found = card {i. i < length rs \<and> compliance_score (rs ! i) < 80}\<rparr>)"
    using assms(1) by (simp add: validation_dashboard_def v c)
  show ?thesis
    using d v e x by (intro exI[of _ "\<lparr>overall_compliance = avg, agents_used = length rs,
        issues_found = card {i. i < length rs \<and> compliance_score (rs ! i) < 80}\<rparr>"]) simp
qed

lemma dashboard_no_zero_division: "validation_dashboard rs \<noteq> Inl ZeroDivisionError"
proof (cases "rs = []")
  case True
  then show ?thesis by (simp add: validation_dashboard_def)
next
  case False
  then have "int (length rs) \<noteq> 0" by simp
  from int_true_divide_no_zero_division[OF this]
  show ?thesis using False by (auto simp: validation_dashboard_def split: sum.splits)
qed

lemma dashboard_80_60_100:
  assumes "map compliance_score rs = [80, 60, 100]"
  shows "validation_dashboard rs =
     Inr (Some \<lparr>overall_compliance = 80, agents_used = 3, issues_found = 1\<rparr>)"
proof -
  from assms have len: "length rs = 3"
    by (metis length_map length_Cons list.size(3) numeral_3_eq_3)
  then have ne: "rs \<noteq> []" by auto
  have f: "length (filter (\<lambda>r. compliance_score r < 80) rs) =
      length (filter (\<lambda>x. x < 80) (map compliance_score rs))"
    by (simp add: filter_map comp_def)
  show ?thesis
    using ne by (simp add: validation_dashboard_def f assms len int_true_divide_240_3)
qed

lemma run_scores_in_range:
  "\<forall>r \<in> set (validation_results (start_validation sv sc doc w)).
     0 \<le> compliance_score r \<and> compliance_score r \<le> 100"
proof
  fix r assume "r \<in> set (validation_results (start_validation sv sc doc w))"
  then obtain a where
    "(a, Inr r) \<in> set (agent_outcomes sv doc (initialize_agents sc) w)"
    unfolding start_validation_results using results_of_member by blast
  then show "0 \<le> compliance_score r \<and> compliance_score r \<le> 100"
    using agent_outcomes_result by blast
qed

section \<open>A run with the scores 80, 60 and 100\<close>

lemma score_80: "BalanceSheetAgent_calculate_compliance_score ''compliant adequate proper'' = 80"
  by code_simp

lemma score_60: "BalanceSheetAgent_calculate_compliance_score ''compliant'' = 60"
  by code_simp

lemma graded_llm:
  "llm graded_services sent p =
     (if length sent = 0 then Inr ''compliant adequate proper''
      else if length sent = 1 then Inr ''compliant''
      else Inr ''compliant adequate proper correct complete'')"
  by (simp add: graded_services_def)

lemma graded_now: "isoformat_now graded_services n = ''2024-01-01T00:00:00''"
  by (simp add: graded_services_def)

lemma graded_PL:
  "prompts_sent w = [] \<Longrightarrow>
   ProfitLossAgent_validate_profit_loss graded_services doc w =
     (Inr (AnalysisResult ''Profit & Loss'' ''compliant adequate proper'' 80
             ''2024-01-01T00:00:00''),
      w\<lparr>prompts_sent := [profit_loss_prompt doc], clock_reads := Suc (clock_reads w)\<rparr>)"
  using PL_returns[of graded_services w doc "''compliant adequate proper''"]
  by (simp add: graded_llm graded_now score_80 ProfitLoss_score_eq)

lemma graded_CF:
  "length (prompts_sent w) = 1 \<Longrightarrow>
   CashFlowAgent_validate_cash_flow graded_services doc w =
     (Inr (AnalysisResult ''Cash Flow'' ''compliant'' 60 ''2024-01-01T00:00:00''),
      w\<lparr>prompts_sent := prompts_sent w @ [cash_flow_prompt doc],
        clock_reads := Suc (clock_reads w)\<rparr>)"
  using CF_returns[of graded_services w doc "''compliant''"]
  by (simp add: graded_llm graded_now score_60 CashFlow_score_eq)

lemma graded_Notes:
  "length (prompts_sent w) = 2 \<Longrightarrow>
   NotesAgent_validate_notes graded_services doc w =
     (Inr (AnalysisResult ''Notes'' ''compliant adequate proper correct complete'' 100
             ''2024-01-01T00:00:00''),
      w\<lparr>prompts_sent := prompts_sent w @ [notes_prompt doc],
        clock_reads := Suc (clock_reads w)\<rparr>)"
  using Notes_returns[of graded_services w doc "''compliant adequate proper correct complete''"]
  by (simp add: graded_llm graded_now score_all_positive Notes_score_eq)

lemma graded_results:
  "validation_results (start_validation graded_services single_pass_agents ''Assets'' fresh_world) =
     [AnalysisResult ''Profit & Loss'' ''compliant adequate proper'' 80 ''2024-01-01T00:00:00'',
      AnalysisResult ''Cash Flow'' ''compliant'' 60 ''2024-01-01T00:00:00'',
      AnalysisResult ''Notes'' ''compliant adequate proper correct complete'' 100
        ''2024-01-01T00:00:00'']"
  by (simp add: start_validation_results initialize_agents_def single_pass_agents_def
      fresh_world_def graded_PL graded_CF graded_Notes)

text \<open>
  C5: in every run with at least one collected result the dashboard raises nothing and
  shows the metrics: the overall compliance is the float that the division of the sum of
  the collected compliance scores by their number gives, which is the arithmetic mean
  rounded to the nearest float, within \<open>2^-47\<close> of the mean and the mean itself whenever
  the number of results divides the sum; the number of issues is the number of results
  with a score strictly below 80. The dashboard never divides by zero. For results with
  the scores 80, 60, 100 the overall compliance is exactly 80.0 and there is 1 issue.
\<close>

theorem dashboard_mean_and_issues:
  "(validation_results (start_validation sv sc doc w) \<noteq> [] \<longrightarrow>
      (\<exists>d. metrics (start_validation sv sc doc w) = Inr (Some d) \<and>
           int_true_divide
             (sum_list (map compliance_score (validation_results (start_validation sv sc doc w))))
             (int (length (validation_results (start_validation sv sc doc w)))) =
             Inr (overall_compliance d) \<and>
           \<bar>overall_compliance d -
              real_of_int (sum_list (map compliance_score
                 (validation_results (start_validation sv sc doc w)))) /
              real (length (validation_results (start_validation sv sc doc w)))\<bar> \<le> 1 / 2 ^ 47 \<and>
           (int (length (validation_results (start_validation sv sc doc w))) dvd
              sum_list (map compliance_score (validation_results (start_validation sv sc doc w))) \<longrightarrow>
            overall_compliance d =
              real_of_int (sum_list (map compliance_score
                 (validation_results (start_validation sv sc doc w)))) /
              real (length (validation_results (start_validation sv sc doc w)))) \<and>
           agents_used d = length (validation_results (start_validation sv sc doc w)) \<and>
           issues_found d =
             card {i. i < length (validation_results (start_validation sv sc doc w)) \<and>
                      compliance_score (validation_results (start_validation sv sc doc w) ! i) < 80})) \<and>
   validation_dashboard rs \<noteq> Inl ZeroDivisionError \<and>
   (map compliance_score rs = [80, 60, 100] \<longrightarrow>
      validation_dashboard rs =
        Inr (Some \<lparr>overall_compliance = 80, agents_used = 3, issues_found = 1\<rparr>))"
proof (intro conjI impI)
  assume "validation_results (start_validation sv sc doc w) \<noteq> []"
  from dashboard_of_scores[OF this run_scores_in_range]
  show "\<exists>d. metrics (start_validation sv sc doc w) = Inr (Some d) \<and>
           int_true_divide
             (sum_list (map compliance_score (validation_results (start_validation sv sc doc w))))
             (int (length (validation_results (start_validation sv sc doc w)))) =
             Inr (overall_compliance d) \<and>
           \<bar>overall_compliance d -
              real_of_int (sum_list (map compliance_score
                 (validation_results (start_validation sv sc doc w)))) /
              real (length (validation_results (start_validation sv sc doc w)))\<bar> \<le> 1 / 2 ^ 47 \<and>
           (int (length (validation_results (start_validation sv sc doc w))) dvd
              sum_list (map compliance_score (validation_results (start_validation sv sc doc w))) \<longrightarrow>
            overall_compliance d =
              real_of_int (sum_list (map compliance_score
                 (validation_results (start_validation sv sc doc w)))) /
              real (length (validation_results (start_validation sv sc doc w)))) \<and>
           agents_used d = length (validation_results (start_validation sv sc doc w)) \<and>
           issues_found d =
             card {i. i < length (validation_results (start_validation sv sc doc w)) \<and>
                      compliance_score (validation_results (start_validation sv sc doc w) ! i) < 80}"
    unfolding start_validation_metrics[symmetric] .
next
  show "validation_dashboard rs \<noteq> Inl ZeroDivisionError"
    by (rule dashboard_no_zero_division)
next
  assume "map compliance_score rs = [80, 60, 100]"
  then show "validation_dashboard rs =
        Inr (Some \<lparr>overall_compliance = 80, agents_used = 3, issues_found = 1\<rparr>)"
    by (rule dashboard_80_60_100)
qed

theorem dashboard_mean_and_issues_witness:
  "validation_results
     (start_validation graded_services single_pass_agents ''Assets'' fresh_world) \<noteq> [] \<and>
   map compliance_score (validation_results
     (start_validation graded_services single_pass_agents ''Assets'' fresh_world)) =
     [80, 60, 100] \<and>
   metrics (start_validation graded_services single_pass_agents ''Assets'' fresh_world) =
     Inr (Some \<lparr>overall_compliance = 80, agents_used = 3, issues_found = 1\<rparr>)"
proof -
  let ?run = "start_validation graded_services single_pass_agents ''Assets'' fresh_world"
  note t = dashboard_mean_and_issues[of graded_services single_pass_agents "''Assets''"
      fresh_world "validation_results ?run"]
  have ne: "validation_results ?run \<noteq> []" by (simp add: graded_results)
  have m: "map compliance_score (validation_results ?run) = [80, 60, 100]"
    by (simp add: graded_results)
  from t[THEN conjunct1] ne
  obtain d where d: "metrics ?run = Inr (Some d)" by blast
  from t[THEN conjunct2, THEN conjunct2] m
  have "validation_dashboard (validation_results ?run) =
      Inr (Some \<lparr>overall_compliance = 80, agents_used = 3, issues_found = 1\<rparr>)"
    by (rule mp)
  then have "metrics ?run =
      Inr (Some \<lparr>overall_compliance = 80, agents_used = 3, issues_found = 1\<rparr>)"
    by (simp add: start_validation_metrics)
  with ne m show ?thesis by (intro conjI)
qed

end
